theory Spec2Isabelle
  imports Main "HOL-Library.Sublist"
begin

section \<open>Text\<close>

text \<open>
  The script works on Python \<open>str\<close> values. They are modelled as \<open>string\<close>: one
  \<open>char\<close> per ASCII character, and the few non-ASCII glyphs of the digest template as
  the bytes of their UTF-8 encoding. Character classes are the ASCII part of Python's:
  \<open>str.lower\<close> maps \<open>A..Z\<close> to \<open>a..z\<close>, \<open>\<backslash>d\<close> is \<open>0..9\<close>, and \<open>\<backslash>s\<close> / \<open>str.strip\<close> whitespace is
  tab, newline, vertical tab, form feed, carriage return, the four separators
  \<open>0x1C..0x1F\<close> and the space.
\<close>

definition code :: "char \<Rightarrow> nat" where
  "code c = of_char c"

definition is_upper :: "char \<Rightarrow> bool" where
  "is_upper c = (65 \<le> code c \<and> code c \<le> 90)"

definition is_lower :: "char \<Rightarrow> bool" where
  "is_lower c = (97 \<le> code c \<and> code c \<le> 122)"

definition is_digit :: "char \<Rightarrow> bool" where
  "is_digit c = (48 \<le> code c \<and> code c \<le> 57)"

definition is_space :: "char \<Rightarrow> bool" where
  "is_space c = ((9 \<le> code c \<and> code c \<le> 13) \<or> (28 \<le> code c \<and> code c \<le> 32))"

definition lower_char :: "char \<Rightarrow> char" where
  "lower_char c = (if is_upper c then char_of (code c + 32) else c)"

definition upper_char :: "char \<Rightarrow> char" where
  "upper_char c = (if is_lower c then char_of (code c - 32) else c)"

definition lower :: "string \<Rightarrow> string" where
  "lower s = map lower_char s"

text \<open>\<open>s.startswith(p)\<close> and \<open>p in s\<close>.\<close>

fun startswith :: "string \<Rightarrow> string \<Rightarrow> bool" where
  "startswith s [] = True"
| "startswith [] (p # ps) = False"
| "startswith (c # cs) (p # ps) = (c = p \<and> startswith cs ps)"

fun contains :: "string \<Rightarrow> string \<Rightarrow> bool" where
  "contains [] p = (p = [])"
| "contains (c # cs) p = (startswith (c # cs) p \<or> contains cs p)"

text \<open>\<open>s.strip()\<close>: whitespace removed at both ends.\<close>

definition strip :: "string \<Rightarrow> string" where
  "strip s = rev (dropWhile is_space (rev (dropWhile is_space s)))"

section \<open>Regular expressions\<close>

text \<open>
  The patterns of the script are sequences of literals, single character sets,
  repeated character sets (greedy or lazy), optional parts, alternatives and capture
  groups. \<open>rx_match\<close> is a backtracking matcher with the priorities of Python's \<open>re\<close>:
  a greedy repetition tries the longest run first, a lazy one the shortest, an
  optional part is tried before it is skipped, alternatives are tried left to right.
  The continuation receives the remaining text and the groups closed so far.
\<close>

datatype citem = CChar char | CRange char char | CDigit | CSpace

datatype cset = Set bool "citem list"

datatype rx =
    Lit string
  | One cset
  | Many cset nat bool
  | Opt "rx list"
  | Alt "rx list list"
  | Grp "rx list"

fun in_citem :: "citem \<Rightarrow> char \<Rightarrow> bool" where
  "in_citem (CChar d) c = (c = d)"
| "in_citem (CRange a b) c = (code a \<le> code c \<and> code c \<le> code b)"
| "in_citem CDigit c = is_digit c"
| "in_citem CSpace c = is_space c"

text \<open>
  Membership of a character in a set \<open>[...]\<close> or \<open>[^...]\<close>; under \<open>re.IGNORECASE\<close>
  (\<open>ic\<close>) a character also matches when its other case is listed.
\<close>

fun in_cset :: "bool \<Rightarrow> cset \<Rightarrow> char \<Rightarrow> bool" where
  "in_cset ic (Set neg items) c =
     (let hit = (list_ex (\<lambda>i. in_citem i c) items
                 \<or> (ic \<and> list_ex (\<lambda>i. in_citem i (lower_char c) \<or> in_citem i (upper_char c)) items))
      in if neg then \<not> hit else hit)"

fun lit_match :: "bool \<Rightarrow> string \<Rightarrow> string \<Rightarrow> string option" where
  "lit_match ic [] s = Some s"
| "lit_match ic (p # ps) [] = None"
| "lit_match ic (p # ps) (c # cs) =
     (if (if ic then lower_char c = lower_char p else c = p) then lit_match ic ps cs else None)"

fun rep_match :: "bool \<Rightarrow> cset \<Rightarrow> nat \<Rightarrow> bool \<Rightarrow> string \<Rightarrow> (string \<Rightarrow> 'a option) \<Rightarrow> 'a option" where
  "rep_match ic cs (Suc n) g [] k = None"
| "rep_match ic cs (Suc n) g (c # s) k =
     (if in_cset ic cs c then rep_match ic cs n g s k else None)"
| "rep_match ic cs 0 g [] k = k []"
| "rep_match ic cs 0 g (c # s) k =
     (if g then
        (if in_cset ic cs c then
           (case rep_match ic cs 0 g s k of Some r \<Rightarrow> Some r | None \<Rightarrow> k (c # s))
         else k (c # s))
      else
        (case k (c # s) of Some r \<Rightarrow> Some r
         | None \<Rightarrow> if in_cset ic cs c then rep_match ic cs 0 g s k else None))"

fun rx_match :: "bool \<Rightarrow> rx list \<Rightarrow> string \<Rightarrow> (string \<times> string) list
                   \<Rightarrow> (string \<Rightarrow> (string \<times> string) list \<Rightarrow> 'a option) \<Rightarrow> 'a option" where
  "rx_match ic [] s gs k = k s gs"
| "rx_match ic (Lit p # rs) s gs k =
     (case lit_match ic p s of None \<Rightarrow> None | Some s' \<Rightarrow> rx_match ic rs s' gs k)"
| "rx_match ic (One cs # rs) s gs k =
     (case s of [] \<Rightarrow> None
      | c # s' \<Rightarrow> if in_cset ic cs c then rx_match ic rs s' gs k else None)"
| "rx_match ic (Many cs n g # rs) s gs k =
     rep_match ic cs n g s (\<lambda>s'. rx_match ic rs s' gs k)"
| "rx_match ic (Opt r # rs) s gs k =
     (case rx_match ic r s gs (\<lambda>s' gs'. rx_match ic rs s' gs' k) of
        Some x \<Rightarrow> Some x
      | None \<Rightarrow> rx_match ic rs s gs k)"
| "rx_match ic (Alt [] # rs) s gs k = None"
| "rx_match ic (Alt (a # as) # rs) s gs k =
     (case rx_match ic a s gs (\<lambda>s' gs'. rx_match ic rs s' gs' k) of
        Some x \<Rightarrow> Some x
      | None \<Rightarrow> rx_match ic (Alt as # rs) s gs k)"
| "rx_match ic (Grp r # rs) s gs k =
     rx_match ic r s gs (\<lambda>s' gs'. rx_match ic rs s' (gs' @ [(s, s')]) k)"

text \<open>
  A group is recorded as the text left at its start and the text left at its end; the
  captured text is what lies between the two.
\<close>

definition between :: "string \<times> string \<Rightarrow> string" where
  "between p = (case p of (s, s') \<Rightarrow> take (length s - length s') s)"

text \<open>
  A match anchored at the start of \<open>s\<close>: the number of characters matched and the
  captured groups.
\<close>

definition match_here :: "bool \<Rightarrow> rx list \<Rightarrow> string \<Rightarrow> (nat \<times> string list) option" where
  "match_here ic rs s =
     rx_match ic rs s [] (\<lambda>s' gs. Some (length s - length s', map between gs))"

text \<open>\<open>re.search\<close>: the leftmost match, as (start, length, groups).\<close>

fun search_from :: "bool \<Rightarrow> rx list \<Rightarrow> nat \<Rightarrow> string \<Rightarrow> (nat \<times> nat \<times> string list) option" where
  "search_from ic rs i [] =
     (case match_here ic rs [] of Some (n, gs) \<Rightarrow> Some (i, n, gs) | None \<Rightarrow> None)"
| "search_from ic rs i (c # s) =
     (case match_here ic rs (c # s) of Some (n, gs) \<Rightarrow> Some (i, n, gs)
      | None \<Rightarrow> search_from ic rs (Suc i) s)"

definition re_search :: "bool \<Rightarrow> rx list \<Rightarrow> string \<Rightarrow> (nat \<times> nat \<times> string list) option" where
  "re_search ic rs s = search_from ic rs 0 s"

text \<open>\<open>match.group(0)\<close> and \<open>match.group(k)\<close> for \<open>k \<ge> 1\<close>.\<close>

definition group0 :: "string \<Rightarrow> nat \<times> nat \<times> string list \<Rightarrow> string" where
  "group0 s m = (case m of (i, n, gs) \<Rightarrow> take n (drop i s))"

definition group :: "nat \<times> nat \<times> string list \<Rightarrow> nat \<Rightarrow> string" where
  "group m k = (case m of (i, n, gs) \<Rightarrow> gs ! (k - 1))"

section \<open>Job listings\<close>

record job =
  company :: string
  title :: string
  link :: string
  compensation :: string
  location :: string

text \<open>\<open>re.search(r'/jobs/view/(\<backslash>d+)', link)\<close>, then \<open>group(1)\<close>.\<close>

definition job_id_rx :: "rx list" where
  "job_id_rx = [Lit ''/jobs/view/'', Grp [Many (Set False [CDigit]) 1 True]]"

definition extract_job_id :: "string \<Rightarrow> string option" where
  "extract_job_id l = map_option (\<lambda>m. group m 1) (re_search False job_id_rx l)"


section \<open>Company tiers\<close>

text \<open>
  \<open>get_company_tier\<close> walks the Tier-1 keywords and returns 1 at the first one found in
  the lowercased name, then does the same with the Tier-2 keywords and 2, and returns 3
  otherwise. The keywords are Python sets; the result of each walk does not depend on
  the iteration order, only on whether some keyword occurs.
\<close>

definition tier1 :: "string list" where
  "tier1 = [''google'', ''alphabet'', ''meta'', ''facebook'', ''apple'', ''amazon'', ''netflix'',
            ''microsoft'', ''nvidia'', ''openai'', ''anthropic'', ''tesla'', ''spacex'',
            ''stripe'', ''databricks'']"

definition tier2 :: "string list" where
  "tier2 = [''salesforce'', ''adobe'', ''uber'', ''lyft'', ''airbnb'', ''doordash'', ''snowflake'',
            ''oracle'', ''ibm'', ''cisco'', ''intel'', ''amd'', ''qualcomm'', ''shopify'',
            ''atlassian'', ''mongodb'', ''elastic'', ''twilio'', ''okta'', ''zoom'', ''slack'',
            ''dropbox'', ''pinterest'', ''snap'', ''twitter'', ''reddit'', ''roblox'', ''unity'',
            ''servicenow'', ''workday'', ''splunk'', ''crowdstrike'', ''palo alto'',
            ''fortinet'', ''cloudflare'', ''datadog'', ''gitlab'', ''hashicorp'', ''figma'',
            ''affirm'', ''coinbase'', ''square'', ''block'', ''spotify'', ''roku'', ''peloton'',
            ''blue origin'', ''mixpanel'', ''sofi'']"

definition get_company_tier :: "string \<Rightarrow> nat" where
  "get_company_tier company_name =
     (let company_lower = lower company_name in
      if list_ex (\<lambda>t1_company. contains company_lower t1_company) tier1 then 1
      else if list_ex (\<lambda>t2_company. contains company_lower t2_company) tier2 then 2
      else 3)"

section \<open>Merging and deduplication\<close>

text \<open>
  The loop of \<open>process_linkedin_emails\<close> over \<open>all_jobs\<close>, with its two accumulators
  \<open>seen_job_ids\<close> and \<open>unique_jobs\<close>. \<open>dedup_step\<close> is one iteration.
\<close>

definition dedup_step :: "string set \<Rightarrow> string set \<times> job list \<Rightarrow> job \<Rightarrow> string set \<times> job list" where
  "dedup_step excluded_job_ids st j =
     (case st of (seen_job_ids, unique_jobs) \<Rightarrow>
       (case extract_job_id (link j) of
          Some job_id \<Rightarrow>
            if job_id \<in> excluded_job_ids then (seen_job_ids, unique_jobs)
            else if job_id \<notin> seen_job_ids then (insert job_id seen_job_ids, unique_jobs @ [j])
            else (seen_job_ids, unique_jobs)
        | None \<Rightarrow>
            if link j \<notin> seen_job_ids then (insert (link j) seen_job_ids, unique_jobs @ [j])
            else (seen_job_ids, unique_jobs)))"

fun dedup_loop :: "string set \<Rightarrow> job list \<Rightarrow> string set \<times> job list \<Rightarrow> string set \<times> job list" where
  "dedup_loop excluded_job_ids [] st = st"
| "dedup_loop excluded_job_ids (j # js) st =
     dedup_loop excluded_job_ids js (dedup_step excluded_job_ids st j)"

definition merge_dedup :: "string set \<Rightarrow> job list \<Rightarrow> job list" where
  "merge_dedup excluded_job_ids all_jobs = snd (dedup_loop excluded_job_ids all_jobs ({}, []))"

text \<open>
  The words of the specification: the key a listing is deduplicated by, and what it
  means for a listing to be on the exclusion list.
\<close>

definition dedup_key :: "job \<Rightarrow> string" where
  "dedup_key j = (case extract_job_id (link j) of Some job_id \<Rightarrow> job_id | None \<Rightarrow> link j)"

definition is_excluded :: "string set \<Rightarrow> job \<Rightarrow> bool" where
  "is_excluded E j = (case extract_job_id (link j) of Some job_id \<Rightarrow> job_id \<in> E | None \<Rightarrow> False)"

text \<open>The numeric identifiers carried by a sequence of listings, in order.\<close>

definition job_ids :: "job list \<Rightarrow> string list" where
  "job_ids js = List.map_filter (\<lambda>j. extract_job_id (link j)) js"

section \<open>More regular-expression operations\<close>

text \<open>
  \<open>re.finditer\<close>: the successive non-overlapping matches, each as its text and its
  groups. After a match the scan goes on behind it (one character further when the
  match was empty).
\<close>

function finditer :: "bool \<Rightarrow> rx list \<Rightarrow> string \<Rightarrow> (string \<times> string list) list" where
  "finditer ic rs s =
     (case re_search ic rs s of
        None \<Rightarrow> []
      | Some (i, n, gs) \<Rightarrow>
          (take n (drop i s), gs)
          # (if i + max n 1 \<le> length s then finditer ic rs (drop (i + max n 1) s) else []))"
  by pat_completeness auto
termination
  by (relation "measure (\<lambda>(ic, rs, s). length s)") auto

text \<open>\<open>re.findall\<close> for a pattern without group, and for a pattern with one group.\<close>

definition findall0 :: "bool \<Rightarrow> rx list \<Rightarrow> string \<Rightarrow> string list" where
  "findall0 ic rs s = map fst (finditer ic rs s)"

definition findall1 :: "bool \<Rightarrow> rx list \<Rightarrow> string \<Rightarrow> string list" where
  "findall1 ic rs s = map (\<lambda>m. snd m ! 0) (finditer ic rs s)"

text \<open>\<open>re.sub(pattern, repl, s)\<close> with a constant replacement.\<close>

function re_sub :: "bool \<Rightarrow> rx list \<Rightarrow> string \<Rightarrow> string \<Rightarrow> string" where
  "re_sub ic rs repl s =
     (case re_search ic rs s of
        None \<Rightarrow> s
      | Some (i, n, gs) \<Rightarrow>
          take i s @ repl @ (if n = 0 then take 1 (drop i s) else [])
          @ (if i + max n 1 \<le> length s then re_sub ic rs repl (drop (i + max n 1) s) else []))"
  by pat_completeness auto
termination
  by (relation "measure (\<lambda>(ic, rs, repl, s). length s)") auto

section \<open>Numbers\<close>

datatype error = ValueError

text \<open>
  \<open>int(s)\<close> for a string of decimal digits: \<open>ValueError\<close> on the empty string and on
  any other character.
\<close>

definition digit_val :: "char \<Rightarrow> nat" where
  "digit_val c = code c - 48"

definition py_int :: "string \<Rightarrow> error + nat" where
  "py_int s =
     (if s = [] \<or> \<not> list_all is_digit s then Inl ValueError
      else Inr (foldl (\<lambda>a c. 10 * a + digit_val c) 0 s))"

text \<open>\<open>str(n)\<close> for a natural number.\<close>

definition digit_char :: "nat \<Rightarrow> char" where
  "digit_char d = char_of (48 + d)"

function str_nat :: "nat \<Rightarrow> string" where
  "str_nat n = (if n < 10 then [digit_char n] else str_nat (n div 10) @ [digit_char (n mod 10)])"
  by pat_completeness auto
termination
  by (relation "measure (\<lambda>n. n)") auto

text \<open>\<open>s.replace(',', '')\<close>.\<close>

definition remove_commas :: "string \<Rightarrow> string" where
  "remove_commas s = filter (\<lambda>c. c \<noteq> CHR '','') s"

section \<open>Exclusion list\<close>

text \<open>
  \<open>load_exclusion_list\<close> reads the exclusion file line by line; the file is given as
  its lines, \<open>None\<close> when it does not exist.
\<close>

definition exclusion_entry :: "string \<Rightarrow> string option" where
  "exclusion_entry raw =
     (let line = strip raw in
      if line = [] \<or> startswith line ''#'' then None
      else (let job_id = strip (takeWhile (\<lambda>c. c \<noteq> CHR ''|'') line) in
            if job_id = [] then None else Some job_id))"

definition load_exclusion_list :: "string list option \<Rightarrow> string set" where
  "load_exclusion_list file =
     (case file of None \<Rightarrow> {} | Some ls \<Rightarrow> set (List.map_filter exclusion_entry ls))"

section \<open>Public-company heuristic\<close>

definition known_public :: "string list" where
  "known_public =
     [''google'', ''alphabet'', ''meta'', ''facebook'', ''amazon'', ''microsoft'',
      ''apple'', ''netflix'', ''tesla'', ''nvidia'', ''intel'', ''amd'', ''qualcomm'',
      ''salesforce'', ''oracle'', ''ibm'', ''cisco'', ''adobe'', ''intuit'', ''paypal'',
      ''uber'', ''lyft'', ''airbnb'', ''doordash'', ''coinbase'', ''snowflake'',
      ''databricks'', ''stripe'', ''atlassian'', ''shopify'', ''square'', ''block'',
      ''mongodb'', ''elastic'', ''twilio'', ''okta'', ''zoom'', ''slack'', ''dropbox'',
      ''pinterest'', ''snap'', ''twitter'', ''reddit'', ''roblox'', ''unity'',
      ''servicenow'', ''workday'', ''splunk'', ''crowdstrike'', ''palo alto'',
      ''fortinet'', ''cloudflare'', ''datadog'', ''gitlab'', ''hashicorp'',
      ''affirm'', ''cvs'', ''zillow'', ''anthropic'', ''ford'', ''walmart'',
      ''target'', ''home depot'', ''lowes'', ''best buy'', ''dell'', ''hp'',
      ''booking'', ''expedia'', ''wayfair'', ''ebay'', ''etsy'', ''chewy'',
      ''draft kings'', ''mgm'', ''caesars'', ''disney'', ''comcast'', ''verizon'',
      ''att'', ''t-mobile'', ''sprint'', ''charter'', ''dish'', ''fox'', ''viacom'',
      ''paramount'', ''warner'', ''discovery'', ''spotify'', ''roku'', ''peloton'',
      ''figma'', ''mixpanel'', ''blue origin'', ''sofi'', ''databricks'']"

definition public_indicators :: "string list" where
  "public_indicators = [''nasdaq'', ''nyse'', ''publicly traded'', ''stock options'', ''equity'']"

definition is_public_company :: "string \<Rightarrow> string \<Rightarrow> bool" where
  "is_public_company company_name job_description =
     (let company_lower = lower company_name in
      if list_ex (\<lambda>public_co. contains company_lower public_co) known_public then True
      else (let desc_lower = lower job_description in
            list_ex (\<lambda>indicator. contains desc_lower indicator) public_indicators))"

section \<open>Compensation\<close>

text \<open>The character sets \<open>\<backslash>s\<close>, \<open>\<backslash>d\<close>, \<open>[\<backslash>d,]\<close> and \<open>[Kk]\<close>.\<close>

definition ws :: cset where
  "ws = Set False [CSpace]"

definition digit :: cset where
  "digit = Set False [CDigit]"

definition num :: cset where
  "num = Set False [CDigit, CChar CHR '','']"

definition kk :: cset where
  "kk = Set False [CChar CHR ''K'', CChar CHR ''k'']"

text \<open>The eight patterns of \<open>extract_compensation\<close>, in its order.\<close>

definition comp_patterns :: "rx list list" where
  "comp_patterns =
     [ [Alt [[Lit ''base salary range''], [Lit ''salary range''], [Lit ''pay range'']],
        Many ws 1 True, Lit ''is'', Many ws 1 True, Many num 1 True, Many ws 1 True, Lit ''USD'',
        Many ws 0 True, Lit ''-'', Many ws 0 True, Many num 1 True, Many ws 1 True, Lit ''USD''],
       [Lit ''$'', Many num 1 True, Opt [Lit ''K''], Many ws 0 True, Lit ''-'', Many ws 0 True,
        Lit ''$'', Many num 1 True, Opt [Lit ''K''], Many ws 0 True, Lit ''/'', Many ws 0 True,
        Lit ''y'', Opt [Lit ''e''], Opt [Lit ''a''], Opt [Lit ''r'']],
       [Lit ''$'', Many num 1 True, Opt [Lit ''K''], Many ws 0 True, Lit ''/'', Many ws 0 True,
        Lit ''y'', Opt [Lit ''e''], Opt [Lit ''a''], Opt [Lit ''r''], Lit ''+''],
       [Lit ''$'', Many num 1 True, Opt [One kk], Many ws 0 True, Lit ''-'', Many ws 0 True,
        Lit ''$'', Many num 1 True, Opt [One kk]],
       [Lit ''$'', Many num 1 True, Opt [One kk], Lit ''+''],
       [Many num 1 True, One kk, Many ws 0 True, Lit ''-'', Many ws 0 True, Many num 1 True, One kk],
       [Alt [[Lit ''base salary''], [Lit ''salary range''], [Lit ''compensation''], [Lit ''pay range'']],
        Opt [Lit '':''], Many ws 0 True, Opt [Lit ''$''], Many num 1 True, Opt [One kk],
        Many ws 0 True, Lit ''-'', Many ws 0 True, Opt [Lit ''$''], Many num 1 True, Opt [One kk]],
       [Alt [[Lit ''base salary''], [Lit ''compensation'']],
        Opt [Lit '':''], Many ws 0 True, Opt [Lit ''$''], Many num 1 True, Opt [One kk], Lit ''+''] ]"

text \<open>\<open>f"${low//1000}K-${high//1000}K"\<close>.\<close>

definition k_range :: "nat \<Rightarrow> nat \<Rightarrow> string" where
  "k_range low high = ''$'' @ str_nat (low div 1000) @ ''K-$'' @ str_nat (high div 1000) @ ''K''"

text \<open>
  The clean-up of a matched text in \<open>extract_compensation\<close>. \<open>int\<close> raises on the
  empty string, which is what is left of a number made of commas only.
\<close>

definition clean_compensation :: "string \<Rightarrow> error + string" where
  "clean_compensation matched =
     (let pay = re_sub False [Many ws 1 True] '' '' matched;
          pay = re_sub True [Lit ''yr''] ''year'' pay
      in if contains pay ''USD'' then
           (let numbers = findall0 False [Many num 1 True] pay in
            if length numbers \<ge> 2 then
              (case py_int (remove_commas (numbers ! 0)) of
                 Inl e \<Rightarrow> Inl e
               | Inr low \<Rightarrow>
                   (case py_int (remove_commas (numbers ! 1)) of
                      Inl e \<Rightarrow> Inl e
                    | Inr high \<Rightarrow> Inr (k_range low high)))
            else Inr pay)
         else Inr pay)"

fun comp_scan :: "rx list list \<Rightarrow> string \<Rightarrow> error + string" where
  "comp_scan [] text = Inr ''Not specified''"
| "comp_scan (pattern # patterns) text =
     (case re_search True pattern text of
        Some m \<Rightarrow> clean_compensation (group0 text m)
      | None \<Rightarrow> comp_scan patterns text)"

definition extract_compensation :: "string \<Rightarrow> error + string" where
  "extract_compensation text = comp_scan comp_patterns text"

text \<open>The three patterns of \<open>fetch_salary_from_job_page\<close>, in its order.\<close>

definition salary_patterns :: "rx list list" where
  "salary_patterns =
     [ [Lit ''$'', Grp [Many num 1 True], Lit ''.00/yr - $'', Grp [Many num 1 True], Lit ''.00/yr''],
       [Lit ''base salary range is '', Grp [Many num 1 True], Lit '' USD - '', Grp [Many num 1 True],
        Lit '' USD''],
       [Lit ''$'', Grp [Many num 1 True], Lit '' - $'', Grp [Many num 1 True]] ]"

text \<open>
  The scan of the fetched page. The whole body of \<open>fetch_salary_from_job_page\<close> is in
  a \<open>try\<close> whose handler returns \<open>None\<close>, so a failing \<open>int\<close> gives \<open>None\<close>.
\<close>

fun salary_scan :: "rx list list \<Rightarrow> string \<Rightarrow> string option" where
  "salary_scan [] html_content = None"
| "salary_scan (pattern # patterns) html_content =
     (case re_search True pattern html_content of
        Some m \<Rightarrow>
          (case py_int (remove_commas (group m 1)) of
             Inl e \<Rightarrow> None
           | Inr low \<Rightarrow>
               (case py_int (remove_commas (group m 2)) of
                  Inl e \<Rightarrow> None
                | Inr high \<Rightarrow> Some (k_range low high)))
      | None \<Rightarrow> salary_scan patterns html_content)"

text \<open>
  \<open>fetch_salary_from_job_page\<close>. The page fetch is the function \<open>job_page\<close> from the
  clean URL to the returned HTML, \<open>None\<close> when the transfer fails, times out or exits
  with a non-zero code.
\<close>

definition fetch_salary_from_job_page :: "(string \<Rightarrow> string option) \<Rightarrow> string \<Rightarrow> string option" where
  "fetch_salary_from_job_page job_page job_url =
     (case extract_job_id job_url of
        None \<Rightarrow> None
      | Some job_id \<Rightarrow>
          (case job_page (''https://www.linkedin.com/jobs/view/'' @ job_id @ ''/'') of
             None \<Rightarrow> None
           | Some html_content \<Rightarrow> salary_scan salary_patterns html_content))"

section \<open>Digest builder\<close>

text \<open>
  \<open>send_summary_email\<close> groups the listings by tier, keeping their order, and renders
  one section per non-empty tier. The three sections of the source differ in their
  header only. \<open>generated\<close> is the formatted time of the run.
\<close>

definition digest_head :: "nat \<Rightarrow> string \<Rightarrow> string" where
  \<open>digest_head n generated =
     ''\<newline>''
     @ ''<html>\<newline>''
     @ ''<head>\<newline>''
     @ ''    <style>\<newline>''
     @ ''        body { font-family: Arial, sans-serif; max-width: 800px; margin: 0 auto; padding: 20px; }\<newline>''
     @ ''        .tier { margin: 30px 0; }\<newline>''
     @ ''        .tier-header { font-size: 24px; font-weight: bold; margin-bottom: 15px; padding-bottom: 10px; border-bottom: 2px solid #ddd; }\<newline>''
     @ ''        .tier1 { color: #d4af37; } /* Gold */\<newline>''
     @ ''        .tier2 { color: #0066cc; } /* Blue */\<newline>''
     @ ''        .tier3 { color: #666; } /* Gray */\<newline>''
     @ ''        .job { margin-bottom: 20px; padding: 15px; border: 1px solid #ddd; border-radius: 5px; background: #f9f9f9; }\<newline>''
     @ ''        .company { font-weight: bold; font-size: 18px; color: #0066cc; }\<newline>''
     @ ''        .title { font-size: 16px; margin: 5px 0; }\<newline>''
     @ ''        .info { color: #666; margin: 3px 0; }\<newline>''
     @ ''        .link { margin-top: 10px; }\<newline>''
     @ ''        a { color: #0066cc; text-decoration: none; }\<newline>''
     @ ''    </style>\<newline>''
     @ ''</head>\<newline>''
     @ ''<body>\<newline>''
     @ ''    <h1>'' @ [CHR 0xF0, CHR 0x9F, CHR 0x8E, CHR 0xAF] @ '' LinkedIn Job Opportunities</h1>\<newline>''
     @ ''    <p><strong>''
     @ str_nat n @ '' jobs</strong> from public companies | Generated on ''
     @ generated @ ''</p>\<newline>''\<close>

definition tier1_header :: "nat \<Rightarrow> string" where
  \<open>tier1_header n =
     ''\<newline>''
     @ ''    <div class="tier">\<newline>''
     @ ''        <div class="tier-header tier1">'' @ [CHR 0xE2, CHR 0xAD, CHR 0x90] @ '' Tier 1: Top Companies (''
     @ str_nat n @ '' jobs)</div>\<newline>''\<close>

definition tier2_header :: "nat \<Rightarrow> string" where
  \<open>tier2_header n =
     ''\<newline>''
     @ ''    <div class="tier">\<newline>''
     @ ''        <div class="tier-header tier2">'' @ [CHR 0xF0, CHR 0x9F, CHR 0x8C, CHR 0x9F] @ '' Tier 2: Great Companies (''
     @ str_nat n @ '' jobs)</div>\<newline>''\<close>

definition tier3_header :: "nat \<Rightarrow> string" where
  \<open>tier3_header n =
     ''\<newline>''
     @ ''    <div class="tier">\<newline>''
     @ ''        <div class="tier-header tier3">'' @ [CHR 0xE2, CHR 0x9C, CHR 0xA8] @ '' Tier 3: Good Companies (''
     @ str_nat n @ '' jobs)</div>\<newline>''\<close>

definition job_block :: "nat \<Rightarrow> job \<Rightarrow> string" where
  \<open>job_block i j =
     ''\<newline>''
     @ ''        <div class="job">\<newline>''
     @ ''            <div class="company">''
     @ str_nat i
     @ ''. ''
     @ company j
     @ ''</div>\<newline>''
     @ ''            <div class="title">''
     @ title j
     @ ''</div>\<newline>''
     @ ''            <div class="info">'' @ [CHR 0xF0, CHR 0x9F, CHR 0x92, CHR 0xB0] @ '' Pay Range: ''
     @ compensation j
     @ ''</div>\<newline>''
     @ ''            <div class="info">'' @ [CHR 0xF0, CHR 0x9F, CHR 0x93, CHR 0x8D] @ '' Location: ''
     @ location j
     @ ''</div>\<newline>''
     @ ''            <div class="link">\<newline>''
     @ ''                <a href="''
     @ link j
     @ ''">View Job Posting '' @ [CHR 0xE2, CHR 0x86, CHR 0x92] @ ''</a>\<newline>''
     @ ''            </div>\<newline>''
     @ ''        </div>\<newline>''\<close>

definition tier_close :: string where
  \<open>tier_close = ''    </div>\<newline>''\<close>

definition digest_tail :: string where
  \<open>digest_tail = ''\<newline></body>\<newline></html>\<newline>''\<close>


fun job_blocks :: "nat \<Rightarrow> job list \<Rightarrow> string" where
  "job_blocks i [] = []"
| "job_blocks i (j # js) = job_block i j @ job_blocks (Suc i) js"

definition tier_section :: "(nat \<Rightarrow> string) \<Rightarrow> job list \<Rightarrow> string" where
  "tier_section header tier_jobs =
     (if tier_jobs = [] then []
      else header (length tier_jobs) @ job_blocks 1 tier_jobs @ tier_close)"

definition tier1_jobs :: "job list \<Rightarrow> job list" where
  "tier1_jobs jobs = filter (\<lambda>j. get_company_tier (company j) = 1) jobs"

definition tier2_jobs :: "job list \<Rightarrow> job list" where
  "tier2_jobs jobs = filter (\<lambda>j. get_company_tier (company j) = 2) jobs"

definition tier3_jobs :: "job list \<Rightarrow> job list" where
  "tier3_jobs jobs =
     filter (\<lambda>j. get_company_tier (company j) \<noteq> 1 \<and> get_company_tier (company j) \<noteq> 2) jobs"

definition email_body :: "string \<Rightarrow> job list \<Rightarrow> string" where
  "email_body generated jobs =
     digest_head (length jobs) generated
     @ tier_section tier1_header (tier1_jobs jobs)
     @ tier_section tier2_header (tier2_jobs jobs)
     @ tier_section tier3_header (tier3_jobs jobs)
     @ digest_tail"

definition email_subject :: "job list \<Rightarrow> string" where
  "email_subject jobs = ''LinkedIn Job Opportunities - '' @ str_nat (length jobs) @ '' Public Companies''"

section \<open>Recovery of the listings of a previous digest\<close>

text \<open>
  The patterns of \<open>parse_previous_summary_emails\<close>. The first one is used with
  \<open>re.DOTALL\<close>, so its dot is any character.
\<close>

definition any_char :: cset where
  "any_char = Set True []"

definition not_lt :: cset where
  "not_lt = Set True [CChar CHR ''<'']"

definition not_quote :: cset where
  \<open>not_quote = Set True [CChar CHR 0x22]\<close>

definition block_rx :: "rx list" where
  \<open>block_rx = [Lit ''<div class="job">'', Grp [Many any_char 0 False], Lit ''</div>'',
               Many ws 0 True, Lit ''</div>'']\<close>

definition company_rx :: "rx list" where
  \<open>company_rx = [Lit ''<div class="company">'',
                 Opt [Many digit 1 True, Lit ''.'', Many ws 1 True],
                 Grp [Many not_lt 1 True], Lit ''</div>'']\<close>

definition title_rx :: "rx list" where
  \<open>title_rx = [Lit ''<div class="title">'', Grp [Many not_lt 1 True], Lit ''</div>'']\<close>

definition pay_rx :: "rx list" where
  \<open>pay_rx = [Lit ([CHR 0xF0, CHR 0x9F, CHR 0x92, CHR 0xB0] @ '' Pay Range:''), Many ws 0 True,
             Grp [Many not_lt 1 True], Lit ''</div>'']\<close>

definition location_rx :: "rx list" where
  \<open>location_rx = [Lit ([CHR 0xF0, CHR 0x9F, CHR 0x93, CHR 0x8D] @ '' Location:''), Many ws 0 True,
                  Grp [Many not_lt 1 True], Lit ''</div>'']\<close>

definition link_rx :: "rx list" where
  \<open>link_rx = [Lit ''<a href="'', Grp [Many not_quote 1 True], Lit ''">'']\<close>

text \<open>One block of a digest: a listing when the company and the link are found.\<close>

definition parse_block :: "string \<Rightarrow> job option" where
  "parse_block block =
     (let company_match = re_search False company_rx block;
          title_match = re_search False title_rx block;
          pay_match = re_search False pay_rx block;
          location_match = re_search False location_rx block;
          link_match = re_search False link_rx block
      in case (company_match, link_match) of
           (Some cm, Some lm) \<Rightarrow>
             Some \<lparr> company = strip (group cm 1),
                    title = (case title_match of Some m \<Rightarrow> strip (group m 1)
                             | None \<Rightarrow> ''Unknown Title''),
                    link = strip (group lm 1),
                    compensation = (case pay_match of Some m \<Rightarrow> strip (group m 1)
                                    | None \<Rightarrow> ''Not specified''),
                    location = (case location_match of Some m \<Rightarrow> strip (group m 1)
                                | None \<Rightarrow> ''Not specified'') \<rparr>
         | _ \<Rightarrow> None)"

text \<open>The listings of one digest body.\<close>

definition parse_summary_body :: "string \<Rightarrow> job list" where
  "parse_summary_body body_html = List.map_filter parse_block (findall1 False block_rx body_html)"

section \<open>The mail tool and the run\<close>

text \<open>
  A listing as \<open>parse_job_listings_from_body\<close> returns it; \<open>l_salary\<close> is the inline
  salary line, \<open>None\<close> when there is none.
\<close>

record listing =
  l_title :: string
  l_company :: string
  l_location :: string
  l_link :: string
  l_salary :: "string option"

text \<open>A thread summary of a search result; \<open>thread_id\<close> is \<open>thread.get('id')\<close>.\<close>

record thread =
  thread_id :: "string option"

text \<open>
  What the run reads from outside: the lines of the exclusion file (\<open>None\<close> when the
  file is missing), the thread lists of the three mail searches (\<open>None\<close> when the tool
  fails or its answer has no \<open>threads\<close>), the body of each message (empty when absent),
  the job pages (\<open>None\<close> when the fetch fails) and the formatted time of the run.
\<close>

record world =
  exclusion_file :: "string list option"
  previous_search :: "thread list option"
  linkedin_search :: "thread list option"
  cleanup_search :: "thread list option"
  message_body :: "string \<Rightarrow> string"
  job_page :: "string \<Rightarrow> string option"
  clock :: string

text \<open>
  What the run changes outside: one pass of \<open>delete_old_summary_emails\<close> with the
  threads it moved to the trash, one send of a digest (recipient, subject, body), one
  message marked as read.
\<close>

datatype effect =
    DeleteOldSummaries "string list"
  | SendSummary string string string
  | MarkRead string

text \<open>The identifier of a thread when it is present and not empty.\<close>

definition usable_id :: "thread \<Rightarrow> string option" where
  "usable_id t = (case thread_id t of None \<Rightarrow> None | Some i \<Rightarrow> if i = [] then None else Some i)"

definition threads_of :: "thread list option \<Rightarrow> thread list" where
  "threads_of result = (case result of None \<Rightarrow> [] | Some threads \<Rightarrow> threads)"

fun previous_loop :: "world \<Rightarrow> thread list \<Rightarrow> job list" where
  "previous_loop W [] = []"
| "previous_loop W (t # ts) =
     (case usable_id t of
        None \<Rightarrow> previous_loop W ts
      | Some message_id \<Rightarrow>
          (let body_html = message_body W message_id in
           if body_html = [] then previous_loop W ts
           else parse_summary_body body_html @ previous_loop W ts))"

definition parse_previous_summary_emails :: "world \<Rightarrow> job list" where
  "parse_previous_summary_emails W = previous_loop W (threads_of (previous_search W))"

definition get_unread_linkedin_emails :: "world \<Rightarrow> thread list" where
  "get_unread_linkedin_emails W = threads_of (linkedin_search W)"

definition delete_old_summary_emails :: "world \<Rightarrow> effect list" where
  "delete_old_summary_emails W =
     [DeleteOldSummaries (List.map_filter usable_id (threads_of (cleanup_search W)))]"

definition send_summary_email :: "world \<Rightarrow> job list \<Rightarrow> string \<Rightarrow> effect list" where
  "send_summary_email W jobs recipient =
     (if jobs = [] then []
      else [SendSummary recipient (email_subject jobs) (email_body (clock W) jobs)])"

text \<open>
  The salary of one listing: the inline salary, else the scan of the email body, else
  the job page when the result so far is empty or \<open>Not specified\<close>.
\<close>

definition resolve_compensation :: "world \<Rightarrow> string \<Rightarrow> listing \<Rightarrow> error + string" where
  "resolve_compensation W body lst =
     (case (case l_salary lst of
              Some salary \<Rightarrow> if salary \<noteq> [] then Inr salary else extract_compensation body
            | None \<Rightarrow> extract_compensation body) of
        Inl e \<Rightarrow> Inl e
      | Inr pay \<Rightarrow>
          (let pay' =
                 (if pay = ''Not specified'' \<or> pay = [] then
                    (case fetch_salary_from_job_page (job_page W) (l_link lst) of
                       Some page_salary \<Rightarrow> if page_salary \<noteq> [] then page_salary else pay
                     | None \<Rightarrow> pay)
                  else pay)
           in Inr (if pay' \<noteq> [] then pay' else ''Not specified'')))"

text \<open>
  One listing of an email: dropped when the company is not public or the job is on
  the exclusion list, otherwise turned into a job with its salary resolved.
\<close>

definition process_listing :: "world \<Rightarrow> string set \<Rightarrow> string \<Rightarrow> listing \<Rightarrow> error + job option" where
  "process_listing W excluded_job_ids body lst =
     (if \<not> is_public_company (l_company lst) body then Inr None
      else if (case extract_job_id (l_link lst) of
                 Some job_id \<Rightarrow> job_id \<in> excluded_job_ids
               | None \<Rightarrow> False) then Inr None
      else (case resolve_compensation W body lst of
              Inl e \<Rightarrow> Inl e
            | Inr pay \<Rightarrow>
                Inr (Some \<lparr> company = l_company lst, title = l_title lst, link = l_link lst,
                            compensation = pay, location = l_location lst \<rparr>)))"

fun process_listings :: "world \<Rightarrow> string set \<Rightarrow> string \<Rightarrow> listing list \<Rightarrow> error + job list" where
  "process_listings W excluded_job_ids body [] = Inr []"
| "process_listings W excluded_job_ids body (lst # rest) =
     (case process_listing W excluded_job_ids body lst of
        Inl e \<Rightarrow> Inl e
      | Inr r \<Rightarrow>
          (case process_listings W excluded_job_ids body rest of
             Inl e \<Rightarrow> Inl e
           | Inr js \<Rightarrow> Inr ((case r of None \<Rightarrow> [] | Some j \<Rightarrow> [j]) @ js)))"

text \<open>
  The loop over the source emails, giving \<open>filtered_jobs\<close> and
  \<open>processed_message_ids\<close>. The listing parser is a pure function of the body; the run
  is modelled for any such function, the argument \<open>parse\<close>.
\<close>

fun process_emails :: "(string \<Rightarrow> listing list) \<Rightarrow> world \<Rightarrow> string set \<Rightarrow> thread list
                       \<Rightarrow> error + job list \<times> string list" where
  "process_emails parse W excluded_job_ids [] = Inr ([], [])"
| "process_emails parse W excluded_job_ids (email # emails) =
     (case usable_id email of
        None \<Rightarrow> process_emails parse W excluded_job_ids emails
      | Some message_id \<Rightarrow>
          (let body = message_body W message_id;
               job_listings = parse body
           in if job_listings = [] then process_emails parse W excluded_job_ids emails
              else (case process_listings W excluded_job_ids body job_listings of
                      Inl e \<Rightarrow> Inl e
                    | Inr jobs \<Rightarrow>
                        (case process_emails parse W excluded_job_ids emails of
                           Inl e \<Rightarrow> Inl e
                         | Inr (filtered_jobs, processed_message_ids) \<Rightarrow>
                             Inr (jobs @ filtered_jobs, message_id # processed_message_ids)))))"

text \<open>
  The result of a run that does not raise: the listings handed to the digest builder
  (\<open>None\<close> when it is not called) and the effects in the order they happen.
\<close>

record outcome =
  digest_input :: "job list option"
  effects :: "effect list"

definition process_linkedin_emails ::
    "(string \<Rightarrow> listing list) \<Rightarrow> world \<Rightarrow> string \<Rightarrow> bool \<Rightarrow> error + outcome" where
  "process_linkedin_emails parse W recipient_email dry_run =
     (let excluded_job_ids = load_exclusion_list (exclusion_file W);
          previous_jobs = parse_previous_summary_emails W;
          emails = get_unread_linkedin_emails W
      in if emails = [] \<and> previous_jobs = [] then Inr \<lparr> digest_input = None, effects = [] \<rparr>
         else (case process_emails parse W excluded_job_ids emails of
                 Inl e \<Rightarrow> Inl e
               | Inr (filtered_jobs, processed_message_ids) \<Rightarrow>
                   (let all_jobs = previous_jobs @ filtered_jobs;
                        unique_jobs = merge_dedup excluded_job_ids all_jobs
                    in Inr \<lparr> digest_input = (if unique_jobs \<noteq> [] then Some unique_jobs else None),
                              effects =
                                (if unique_jobs \<noteq> [] then
                                   (if \<not> dry_run then delete_old_summary_emails W else [])
                                   @ send_summary_email W unique_jobs recipient_email
                                 else [])
                                @ (if \<not> dry_run \<and> processed_message_ids \<noteq> []
                                   then map MarkRead processed_message_ids else []) \<rparr>)))"

section \<open>Example data\<close>

definition example_job_a :: job where
  "example_job_a = \<lparr> company = ''Google'', title = ''Staff Engineer'',
       link = ''https://www.linkedin.com/comm/jobs/view/4365006239/?trk=eml'',
       compensation = ''$198K-$343K / year'', location = ''Seattle, WA'' \<rparr>"

definition example_job_b :: job where
  "example_job_b = \<lparr> company = ''Uber'', title = ''Backend Engineer'',
       link = ''https://www.linkedin.com/comm/jobs/view/4365006240'',
       compensation = ''Not specified'', location = ''Remote'' \<rparr>"

definition example_job_c :: job where
  "example_job_c = \<lparr> company = ''Google'', title = ''Staff Software Engineer'',
       link = ''https://www.linkedin.com/jobs/view/4365006239'',
       compensation = ''$150K-$200K'', location = ''Seattle, WA'' \<rparr>"

definition example_job_d :: job where
  "example_job_d = \<lparr> company = ''Ford'', title = ''Data Engineer'',
       link = ''https://careers.example.com/openings/17'',
       compensation = ''Not specified'', location = ''Austin, TX'' \<rparr>"

definition example_job_e :: job where
  "example_job_e = \<lparr> company = ''Google'', title = ''Staff Engineer'',
       link = ''https://www.linkedin.com/jobs/view/4365006239'',
       compensation = ''Not specified'', location = ''Not specified'' \<rparr>"

text \<open>
  A mailbox with one earlier digest message and no LinkedIn mail, and an exclusion
  file with one entry.
\<close>

definition example_digest_html :: string where
  \<open>example_digest_html =
     ''<div class="job"><div class="company">1. Google</div>''
     @ ''<div class="title">Staff Engineer</div>''
     @ ''<a href="https://www.linkedin.com/jobs/view/4365006239">View</a></div> </div>''\<close>

definition example_world :: world where
  "example_world =
     \<lparr> exclusion_file = Some [''# jobs to skip'', ''4365006240|Uber|backend''],
       previous_search = Some [\<lparr> thread_id = Some ''19c0ffee'' \<rparr>],
       linkedin_search = None,
       cleanup_search = Some [\<lparr> thread_id = Some ''19c0ffee'' \<rparr>],
       message_body = (\<lambda>m. if m = ''19c0ffee'' then example_digest_html else []),
       job_page = (\<lambda>u. None),
       clock = ''2026-01-05 09:30'' \<rparr>"

text \<open>An email body with an indicator phrase, and two listings of it.\<close>

definition example_body :: string where
  "example_body = ''Senior Engineer at Tiny Startup. Competitive salary and Equity. View job: ''"

definition example_listings :: "listing list" where
  "example_listings =
     [\<lparr> l_title = ''Senior Engineer'', l_company = ''Tiny Startup'', l_location = ''Remote'',
        l_link = ''https://www.linkedin.com/comm/jobs/view/4365006241'', l_salary = Some ''$100K-$120K'' \<rparr>,
      \<lparr> l_title = ''Designer'', l_company = ''Another Small Shop'', l_location = ''Remote'',
        l_link = ''https://www.linkedin.com/comm/jobs/view/4365006242'', l_salary = Some ''$90K-$95K'' \<rparr>]"

text \<open>
  A mailbox with an earlier digest of two listings, one of them on the exclusion
  list, and one new LinkedIn mail whose first listing repeats a listing of the digest.
\<close>

definition example_job_f :: job where
  "example_job_f = \<lparr> company = ''Uber'', title = ''Backend Engineer'',
       link = ''https://www.linkedin.com/jobs/view/4365006240'',
       compensation = ''Not specified'', location = ''Not specified'' \<rparr>"

definition example_job_g :: job where
  "example_job_g = \<lparr> company = ''Netflix'', title = ''Data Engineer'',
       link = ''https://www.linkedin.com/comm/jobs/view/4365006243'',
       compensation = ''$150K-$200K'', location = ''Remote'' \<rparr>"

definition busy_digest_html :: string where
  \<open>busy_digest_html =
     example_digest_html
     @ ''<div class="job"><div class="company">1. Uber</div>''
     @ ''<div class="title">Backend Engineer</div>''
     @ ''<a href="https://www.linkedin.com/jobs/view/4365006240">View</a></div> </div>''\<close>

definition busy_mail_body :: string where
  "busy_mail_body = ''Staff Engineer at Google, Seattle. Data Engineer at Netflix, Remote. View job: ''"

definition busy_mail_listings :: "listing list" where
  "busy_mail_listings =
     [\<lparr> l_title = ''Staff Engineer'', l_company = ''Google'', l_location = ''Seattle, WA'',
        l_link = ''https://www.linkedin.com/comm/jobs/view/4365006239/?trk=eml'',
        l_salary = Some ''$198K-$343K / year'' \<rparr>,
      \<lparr> l_title = ''Data Engineer'', l_company = ''Netflix'', l_location = ''Remote'',
        l_link = ''https://www.linkedin.com/comm/jobs/view/4365006243'',
        l_salary = Some ''$150K-$200K'' \<rparr>]"

definition busy_parse :: "string \<Rightarrow> listing list" where
  "busy_parse body = (if body = busy_mail_body then busy_mail_listings else [])"

definition busy_world :: world where
  "busy_world =
     \<lparr> exclusion_file = Some [''# jobs to skip'', ''4365006240|Uber|backend''],
       previous_search = Some [\<lparr> thread_id = Some ''19c0ffee'' \<rparr>],
       linkedin_search = Some [\<lparr> thread_id = Some ''19c0fff0'' \<rparr>],
       cleanup_search = Some [\<lparr> thread_id = Some ''19c0ffee'' \<rparr>, \<lparr> thread_id = Some ''19c0ffdd'' \<rparr>],
       message_body = (\<lambda>m. if m = ''19c0ffee'' then busy_digest_html
                            else if m = ''19c0fff0'' then busy_mail_body else []),
       job_page = (\<lambda>u. None),
       clock = ''2026-01-05 09:30'' \<rparr>"

section \<open>Properties of the text functions\<close>

lemma startswith_iff: "startswith s p \<longleftrightarrow> (\<exists>b. s = p @ b)"
  by (induction s p rule: startswith.induct) auto

lemma contains_iff: "contains s p \<longleftrightarrow> (\<exists>a b. s = a @ p @ b)"
proof (induction s)
  case Nil
  then show ?case by auto
next
  case (Cons c cs)
  show ?case
  proof
    assume "contains (c # cs) p"
    then consider "startswith (c # cs) p" | "contains cs p" by auto
    then show "\<exists>a b. c # cs = a @ p @ b"
    proof cases
      case 1
      then obtain b where "c # cs = p @ b" using startswith_iff by blast
      then have "c # cs = [] @ p @ b" by simp
      then show ?thesis by blast
    next
      case 2
      then obtain a b where "cs = a @ p @ b" using Cons.IH by blast
      then have "c # cs = (c # a) @ p @ b" by simp
      then show ?thesis by blast
    qed
  next
    assume "\<exists>a b. c # cs = a @ p @ b"
    then obtain a b where ab: "c # cs = a @ p @ b" by blast
    show "contains (c # cs) p"
    proof (cases a)
      case Nil
      then have "startswith (c # cs) p" using ab startswith_iff by auto
      then show ?thesis by simp
    next
      case (Cons a0 as)
      then have "cs = as @ p @ b" using ab by simp
      then have "contains cs p" using Cons.IH by blast
      then show ?thesis by simp
    qed
  qed
qed

section \<open>Properties of the tier classification\<close>

lemma tier_cases:
  "get_company_tier c = 1 \<or> get_company_tier c = 2 \<or> get_company_tier c = 3"
  by (simp add: get_company_tier_def Let_def)

lemma tier_is_1:
  "get_company_tier c = 1 \<longleftrightarrow> list_ex (contains (lower c)) tier1"
  by (simp add: get_company_tier_def Let_def)

lemma tier_is_2:
  "get_company_tier c = 2 \<longleftrightarrow>
     \<not> list_ex (contains (lower c)) tier1 \<and> list_ex (contains (lower c)) tier2"
  by (simp add: get_company_tier_def Let_def)

lemma tier_is_3:
  "get_company_tier c = 3 \<longleftrightarrow>
     \<not> list_ex (contains (lower c)) tier1 \<and> \<not> list_ex (contains (lower c)) tier2"
  by (simp add: get_company_tier_def Let_def)

lemma tier_google: "get_company_tier ''Google LLC'' = 1"
  by code_simp

lemma tier_unknown: "get_company_tier ''Random Unknown Startup Inc'' = 3"
  by code_simp

text \<open>
  C8. Tier classification is a total function of the company name with values 1, 2
  and 3. It is 1 exactly when some Tier-1 keyword occurs in the lowercased name, 2
  exactly when no Tier-1 keyword but some Tier-2 keyword occurs, and 3 otherwise, so
  the Tier-1 keywords take precedence. \<open>Google LLC\<close> is in tier 1 and
  \<open>Random Unknown Startup Inc\<close> in tier 3.
\<close>

theorem tier_total_first_match:
  "get_company_tier c \<in> {1, 2, 3}
   \<and> (get_company_tier c = 1 \<longleftrightarrow> (\<exists>k \<in> set tier1. \<exists>a b. lower c = a @ k @ b))
   \<and> (get_company_tier c = 2 \<longleftrightarrow>
        \<not> (\<exists>k \<in> set tier1. \<exists>a b. lower c = a @ k @ b)
        \<and> (\<exists>k \<in> set tier2. \<exists>a b. lower c = a @ k @ b))
   \<and> (get_company_tier c = 3 \<longleftrightarrow>
        \<not> (\<exists>k \<in> set tier1. \<exists>a b. lower c = a @ k @ b)
        \<and> \<not> (\<exists>k \<in> set tier2. \<exists>a b. lower c = a @ k @ b))
   \<and> get_company_tier ''Google LLC'' = 1
   \<and> get_company_tier ''Random Unknown Startup Inc'' = 3"
proof -
  have ex: "list_ex (contains (lower c)) ks \<longleftrightarrow> (\<exists>k \<in> set ks. \<exists>a b. lower c = a @ k @ b)" for ks
    by (simp add: list_ex_iff contains_iff)
  have "get_company_tier c \<in> {1, 2, 3}"
    using tier_cases [of c] by auto
  then show ?thesis
    using tier_is_1 [of c] tier_is_2 [of c] tier_is_3 [of c] tier_google tier_unknown
    unfolding ex by blast
qed

theorem tier_total_first_match_witness:
  "(\<exists>k \<in> set tier1. \<exists>a b. lower ''Meta Platforms, Inc.'' = a @ k @ b)
   \<and> get_company_tier ''Meta Platforms, Inc.'' = 1"
proof -
  have l: "lower ''Meta Platforms, Inc.'' = [] @ ''meta'' @ '' platforms, inc.''"
    by code_simp
  have k: "''meta'' \<in> set tier1"
    by (simp add: tier1_def)
  have h: "\<exists>k \<in> set tier1. \<exists>a b. lower ''Meta Platforms, Inc.'' = a @ k @ b"
    using l k by blast
  then show ?thesis
    using tier_total_first_match [of "''Meta Platforms, Inc.''"] by blast
qed

section \<open>Properties of the merge and deduplication loop\<close>

text \<open>One iteration, in the words of the specification.\<close>

lemma dedup_step_key:
  "dedup_step E (S, out) j =
     (if is_excluded E j \<or> dedup_key j \<in> S then (S, out)
      else (insert (dedup_key j) S, out @ [j]))"
  by (auto simp: dedup_step_def is_excluded_def dedup_key_def split: option.splits)

lemma dedup_loop_append:
  "dedup_loop E (xs @ ys) st = dedup_loop E ys (dedup_loop E xs st)"
  by (induction xs arbitrary: st) auto

lemma dedup_loop_fst:
  "fst (dedup_loop E xs (S, out)) = S \<union> dedup_key ` {j \<in> set xs. \<not> is_excluded E j}"
  by (induction xs arbitrary: S out) (auto simp: dedup_step_key)

lemma dedup_loop_snd:
  "snd (dedup_loop E xs (S, out)) = out @ snd (dedup_loop E xs (S, []))"
proof (induction xs arbitrary: S out)
  case Nil
  then show ?case by simp
next
  case (Cons j js)
  show ?case
  proof (cases "is_excluded E j \<or> dedup_key j \<in> S")
    case True
    then show ?thesis using Cons.IH [of S out] by (simp add: dedup_step_key)
  next
    case False
    then show ?thesis
      using Cons.IH [of "insert (dedup_key j) S" "out @ [j]"]
            Cons.IH [of "insert (dedup_key j) S" "[j]"]
      by (simp add: dedup_step_key)
  qed
qed

lemma dedup_loop_noop:
  "\<forall>j \<in> set ys. is_excluded E j \<or> dedup_key j \<in> S \<Longrightarrow> dedup_loop E ys (S, out) = (S, out)"
  by (induction ys) (auto simp: dedup_step_key)

lemma dedup_loop_subseq: "subseq (snd (dedup_loop E xs (S, []))) xs"
proof (induction xs arbitrary: S)
  case Nil
  then show ?case by simp
next
  case (Cons j js)
  show ?case
  proof (cases "is_excluded E j \<or> dedup_key j \<in> S")
    case True
    then show ?thesis using Cons.IH [of S] by (simp add: dedup_step_key list_emb_Cons)
  next
    case False
    have "snd (dedup_loop E (j # js) (S, [])) = [j] @ snd (dedup_loop E js (insert (dedup_key j) S, []))"
      using False dedup_loop_snd [of E js "insert (dedup_key j) S" "[j]"]
      by (simp add: dedup_step_key)
    then show ?thesis using Cons.IH [of "insert (dedup_key j) S"] by simp
  qed
qed

lemma dedup_loop_keys:
  "distinct (map dedup_key (snd (dedup_loop E xs (S, []))))
   \<and> dedup_key ` set (snd (dedup_loop E xs (S, []))) = dedup_key ` {j \<in> set xs. \<not> is_excluded E j} - S
   \<and> (\<forall>j \<in> set (snd (dedup_loop E xs (S, []))). \<not> is_excluded E j)"
proof (induction xs arbitrary: S)
  case Nil
  then show ?case by simp
next
  case (Cons j js)
  show ?case
  proof (cases "is_excluded E j \<or> dedup_key j \<in> S")
    case True
    then show ?thesis using Cons.IH [of S] by (auto simp: dedup_step_key)
  next
    case False
    have eq: "snd (dedup_loop E (j # js) (S, [])) = j # snd (dedup_loop E js (insert (dedup_key j) S, []))"
      using False dedup_loop_snd [of E js "insert (dedup_key j) S" "[j]"]
      by (simp add: dedup_step_key)
    show ?thesis using False Cons.IH [of "insert (dedup_key j) S"] unfolding eq by auto
  qed
qed

lemma dedup_loop_first_kept:
  assumes "\<not> is_excluded E j" "dedup_key j \<notin> S"
    and "\<forall>j' \<in> set a. \<not> is_excluded E j' \<longrightarrow> dedup_key j' \<noteq> dedup_key j"
  shows "j \<in> set (snd (dedup_loop E (a @ j # b) (S, [])))"
proof -
  obtain S' out' where st: "dedup_loop E a (S, []) = (S', out')"
    by (cases "dedup_loop E a (S, [])")
  have "S' = S \<union> dedup_key ` {j \<in> set a. \<not> is_excluded E j}"
    using dedup_loop_fst [of E a S "[]"] st by simp
  then have notin: "dedup_key j \<notin> S'" using assms by auto
  have "dedup_loop E (a @ j # b) (S, []) = dedup_loop E b (insert (dedup_key j) S', out' @ [j])"
    using st notin assms(1) by (simp add: dedup_loop_append dedup_step_key)
  then have "snd (dedup_loop E (a @ j # b) (S, []))
             = (out' @ [j]) @ snd (dedup_loop E b (insert (dedup_key j) S', []))"
    using dedup_loop_snd [of E b "insert (dedup_key j) S'" "out' @ [j]"] by simp
  then show ?thesis by simp
qed

lemma job_ids_subset_keys: "set (job_ids js) \<subseteq> dedup_key ` set js"
proof
  fix i assume "i \<in> set (job_ids js)"
  then obtain x where x: "x \<in> set js" "extract_job_id (link x) = Some i"
    by (auto simp: job_ids_def map_filter_def)
  then have "dedup_key x = i" by (simp add: dedup_key_def)
  then show "i \<in> dedup_key ` set js" using x by blast
qed

lemma distinct_job_ids:
  "distinct (map dedup_key js) \<Longrightarrow> distinct (job_ids js)"
proof (induction js)
  case Nil
  then show ?case by (simp add: job_ids_def)
next
  case (Cons j js)
  show ?case
  proof (cases "extract_job_id (link j)")
    case None
    then show ?thesis using Cons by (simp add: job_ids_def)
  next
    case (Some i)
    then have "dedup_key j = i" by (simp add: dedup_key_def)
    then have "i \<notin> set (job_ids js)" using Cons.prems job_ids_subset_keys [of js] by auto
    then show ?thesis using Cons Some by (simp add: job_ids_def)
  qed
qed

lemma merge_dedup_twice: "merge_dedup E (xs @ xs) = merge_dedup E xs"
proof -
  obtain S out where st: "dedup_loop E xs ({}, []) = (S, out)"
    by (cases "dedup_loop E xs ({}, [])")
  have "S = dedup_key ` {j \<in> set xs. \<not> is_excluded E j}"
    using dedup_loop_fst [of E xs "{}" "[]"] st by simp
  then have "\<forall>j \<in> set xs. is_excluded E j \<or> dedup_key j \<in> S" by auto
  then have "dedup_loop E xs (S, out) = (S, out)" by (rule dedup_loop_noop)
  then show ?thesis by (simp add: merge_dedup_def dedup_loop_append st)
qed

lemma merge_dedup_split:
  "merge_dedup E (prev @ new) =
     merge_dedup E prev @ snd (dedup_loop E new (fst (dedup_loop E prev ({}, [])), []))"
proof -
  obtain S out where st: "dedup_loop E prev ({}, []) = (S, out)"
    by (cases "dedup_loop E prev ({}, [])")
  show ?thesis
    using dedup_loop_snd [of E new S out] by (simp add: merge_dedup_def dedup_loop_append st)
qed

lemma merge_dedup_distinct: "distinct (map dedup_key (merge_dedup E xs))"
  using dedup_loop_keys [of E xs "{}"] by (simp add: merge_dedup_def)

lemma merge_dedup_keys:
  "dedup_key ` set (merge_dedup E xs) = dedup_key ` {j \<in> set xs. \<not> is_excluded E j}"
  using dedup_loop_keys [of E xs "{}"] by (simp add: merge_dedup_def)

lemma merge_dedup_not_excluded: "j \<in> set (merge_dedup E xs) \<Longrightarrow> \<not> is_excluded E j"
  using dedup_loop_keys [of E xs "{}"] by (simp add: merge_dedup_def)

lemma merge_dedup_subseq: "subseq (merge_dedup E xs) xs"
  using dedup_loop_subseq [of E xs "{}"] by (simp add: merge_dedup_def)

lemma merge_dedup_first_kept:
  "\<not> is_excluded E j \<Longrightarrow>
   \<forall>j' \<in> set a. \<not> is_excluded E j' \<longrightarrow> dedup_key j' \<noteq> dedup_key j \<Longrightarrow>
   j \<in> set (merge_dedup E (a @ j # b))"
  using dedup_loop_first_kept [of E j "{}" a b] by (simp add: merge_dedup_def)

lemma example_ids:
  "extract_job_id (link example_job_a) = Some ''4365006239''"
  "extract_job_id (link example_job_b) = Some ''4365006240''"
  "extract_job_id (link example_job_c) = Some ''4365006239''"
  "extract_job_id (link example_job_d) = None"
  by (code_simp)+

lemma example_keys:
  "dedup_key example_job_a = ''4365006239''"
  "dedup_key example_job_b = ''4365006240''"
  "dedup_key example_job_c = ''4365006239''"
  "dedup_key example_job_d = ''https://careers.example.com/openings/17''"
  by (code_simp)+

lemma example_excluded:
  "\<not> is_excluded {''4365006240''} example_job_a"
  "is_excluded {''4365006240''} example_job_b"
  "\<not> is_excluded {''4365006240''} example_job_c"
  "\<not> is_excluded {''https://careers.example.com/openings/17''} example_job_d"
  "\<not> is_excluded {''4365006240''} example_job_d"
  by (simp_all add: is_excluded_def example_ids)

text \<open>
  C5. Deduplication is idempotent: deduplicating a sequence followed by itself gives
  what deduplicating the sequence gives. The result has no two listings with the same
  job identifier, is a subsequence of the input, and contains every listing that is
  not excluded and is the first of its key.
\<close>

theorem dedup_idempotent:
  "merge_dedup E (xs @ xs) = merge_dedup E xs
   \<and> distinct (job_ids (merge_dedup E xs))
   \<and> subseq (merge_dedup E xs) xs
   \<and> (\<forall>a j b. xs = a @ j # b \<and> \<not> is_excluded E j
          \<and> (\<forall>j' \<in> set a. \<not> is_excluded E j' \<longrightarrow> dedup_key j' \<noteq> dedup_key j)
        \<longrightarrow> j \<in> set (merge_dedup E xs))"
  using merge_dedup_twice [of E xs] distinct_job_ids [OF merge_dedup_distinct [of E xs]]
        merge_dedup_subseq [of E xs] merge_dedup_first_kept [of E]
  by blast

theorem dedup_idempotent_witness:
  "merge_dedup {''4365006240''}
     ([example_job_a, example_job_b, example_job_c] @ [example_job_a, example_job_b, example_job_c])
   = merge_dedup {''4365006240''} [example_job_a, example_job_b, example_job_c]
   \<and> \<not> is_excluded {''4365006240''} example_job_a
   \<and> example_job_a \<in> set (merge_dedup {''4365006240''} [example_job_a, example_job_b, example_job_c])"
proof -
  have split: "[example_job_a, example_job_b, example_job_c] = [] @ example_job_a # [example_job_b, example_job_c]"
    by simp
  have first: "\<forall>j' \<in> set []. \<not> is_excluded {''4365006240''} j' \<longrightarrow> dedup_key j' \<noteq> dedup_key example_job_a"
    by simp
  show ?thesis
    using dedup_idempotent [of "{''4365006240''}" "[example_job_a, example_job_b, example_job_c]"]
          split first example_excluded(1)
    by blast
qed

text \<open>
  C7. The merged sequence is the deduplicated prior-run listings followed by listings
  of the new ones, each part in the order of its input. No two listings of it have
  the same key, every listing that is not excluded has its key in it, and the key of
  a listing is the numeric identifier of its link, or the whole link when the link has
  none.
\<close>

theorem merge_prior_first:
  "(\<exists>rest. merge_dedup E (prev @ new) = merge_dedup E prev @ rest
           \<and> subseq (merge_dedup E prev) prev \<and> subseq rest new)
   \<and> distinct (map dedup_key (merge_dedup E (prev @ new)))
   \<and> dedup_key ` set (merge_dedup E (prev @ new))
       = dedup_key ` {j \<in> set (prev @ new). \<not> is_excluded E j}
   \<and> (\<forall>j. dedup_key j = (case extract_job_id (link j) of Some job_id \<Rightarrow> job_id | None \<Rightarrow> link j))"
proof -
  have "subseq (snd (dedup_loop E new (fst (dedup_loop E prev ({}, [])), []))) new"
    by (rule dedup_loop_subseq)
  then have "\<exists>rest. merge_dedup E (prev @ new) = merge_dedup E prev @ rest
                   \<and> subseq (merge_dedup E prev) prev \<and> subseq rest new"
    using merge_dedup_split [of E prev new] merge_dedup_subseq [of E prev] by blast
  then show ?thesis
    using merge_dedup_distinct [of E "prev @ new"] merge_dedup_keys [of E "prev @ new"]
    by (simp add: dedup_key_def)
qed

theorem merge_prior_first_witness:
  "merge_dedup {''4365006240''} ([example_job_c, example_job_d] @ [example_job_a, example_job_b])
     = [example_job_c, example_job_d]
   \<and> dedup_key ` set (merge_dedup {''4365006240''} ([example_job_c, example_job_d] @ [example_job_a, example_job_b]))
     = {''4365006239'', ''https://careers.example.com/openings/17''}"
proof -
  have out: "merge_dedup {''4365006240''} ([example_job_c, example_job_d] @ [example_job_a, example_job_b])
             = [example_job_c, example_job_d]"
    by (simp add: merge_dedup_def dedup_step_key example_keys example_excluded)
  have "dedup_key ` set (merge_dedup {''4365006240''} ([example_job_c, example_job_d] @ [example_job_a, example_job_b]))
        = dedup_key ` {j \<in> set ([example_job_c, example_job_d] @ [example_job_a, example_job_b]).
                        \<not> is_excluded {''4365006240''} j}"
    using merge_prior_first [of "{''4365006240''}" "[example_job_c, example_job_d]" "[example_job_a, example_job_b]"]
    by blast
  then show ?thesis
    using out by (simp add: example_keys)
qed

text \<open>
  C10. A listing whose link has no numeric identifier is never tested against the
  exclusion list: the iteration of the loop on it depends on the seen keys only, with
  the whole link as its key. Whatever the exclusion list, the key of such a listing
  of the input is the key of a listing of the output, and the listing itself is in the
  output when it is the first of its key.
\<close>

theorem no_id_not_excluded:
  assumes "extract_job_id (link j) = None"
  shows "dedup_step E (S, out) j
           = (if link j \<in> S then (S, out) else (insert (link j) S, out @ [j]))
         \<and> (j \<in> set xs \<longrightarrow> (\<exists>j' \<in> set (merge_dedup E xs). dedup_key j' = link j))
         \<and> ((\<forall>j' \<in> set a. \<not> is_excluded E j' \<longrightarrow> dedup_key j' \<noteq> link j)
              \<longrightarrow> j \<in> set (merge_dedup E (a @ j # b)))"
proof -
  have key: "dedup_key j = link j" and ex: "\<not> is_excluded E j"
    using assms by (simp_all add: dedup_key_def is_excluded_def)
  have step: "dedup_step E (S, out) j
                = (if link j \<in> S then (S, out) else (insert (link j) S, out @ [j]))"
    using assms by (simp add: dedup_step_def)
  have "j \<in> set xs \<Longrightarrow> \<exists>j' \<in> set (merge_dedup E xs). dedup_key j' = link j"
  proof -
    assume "j \<in> set xs"
    then have "dedup_key j \<in> dedup_key ` {j \<in> set xs. \<not> is_excluded E j}" using ex by blast
    then have "link j \<in> dedup_key ` set (merge_dedup E xs)"
      using merge_dedup_keys [of E xs] key by simp
    then show ?thesis by auto
  qed
  then show ?thesis
    using step merge_dedup_first_kept [of E j a b] ex key by auto
qed

theorem no_id_not_excluded_witness:
  "extract_job_id (link example_job_d) = None
   \<and> example_job_d \<in> set (merge_dedup {''https://careers.example.com/openings/17''}
                              ([example_job_a] @ example_job_d # [example_job_d]))"
proof -
  have none: "extract_job_id (link example_job_d) = None"
    by (rule example_ids(4))
  have first: "\<forall>j' \<in> set [example_job_a].
                 \<not> is_excluded {''https://careers.example.com/openings/17''} j'
                 \<longrightarrow> dedup_key j' \<noteq> link example_job_d"
    by (simp add: example_keys(1) example_job_d_def)
  show ?thesis
    using no_id_not_excluded [OF none, of "{''https://careers.example.com/openings/17''}"
                                "{}" "[]" "[]" "[example_job_a]" "[example_job_d]"]
          none first
    by blast
qed


section \<open>Properties of the run\<close>

lemma run_early:
  "get_unread_linkedin_emails W = [] \<Longrightarrow> parse_previous_summary_emails W = [] \<Longrightarrow>
   process_linkedin_emails parse W recipient dry_run = Inr \<lparr> digest_input = None, effects = [] \<rparr>"
  by (simp add: process_linkedin_emails_def)

lemma run_raises:
  assumes c: "\<not> (get_unread_linkedin_emails W = [] \<and> parse_previous_summary_emails W = [])"
    and pe: "process_emails parse W (load_exclusion_list (exclusion_file W))
               (get_unread_linkedin_emails W) = Inl e"
  shows "process_linkedin_emails parse W recipient dry_run = Inl e"
  unfolding process_linkedin_emails_def Let_def
  by (simp only: c if_False pe sum.case)

lemma send_nonempty:
  "jobs \<noteq> [] \<Longrightarrow>
   send_summary_email W jobs recipient
     = [SendSummary recipient (email_subject jobs) (email_body (clock W) jobs)]"
  by (simp add: send_summary_email_def)

lemma run_full:
  assumes c: "\<not> (get_unread_linkedin_emails W = [] \<and> parse_previous_summary_emails W = [])"
    and pe: "process_emails parse W (load_exclusion_list (exclusion_file W))
               (get_unread_linkedin_emails W) = Inr (filtered_jobs, processed)"
    and u: "unique = merge_dedup (load_exclusion_list (exclusion_file W))
                       (parse_previous_summary_emails W @ filtered_jobs)"
  shows "process_linkedin_emails parse W recipient dry_run =
     Inr \<lparr> digest_input = (if unique \<noteq> [] then Some unique else None),
           effects = (if unique \<noteq> [] then
                        (if \<not> dry_run then delete_old_summary_emails W else [])
                        @ [SendSummary recipient (email_subject unique) (email_body (clock W) unique)]
                      else [])
                     @ (if \<not> dry_run \<and> processed \<noteq> [] then map MarkRead processed else []) \<rparr>"
proof -
  have "process_linkedin_emails parse W recipient dry_run =
     Inr \<lparr> digest_input = (if unique \<noteq> [] then Some unique else None),
           effects = (if unique \<noteq> [] then
                        (if \<not> dry_run then delete_old_summary_emails W else [])
                        @ send_summary_email W unique recipient
                      else [])
                     @ (if \<not> dry_run \<and> processed \<noteq> [] then map MarkRead processed else []) \<rparr>"
    unfolding process_linkedin_emails_def Let_def u
    by (simp only: c if_False pe sum.case prod.case)
  moreover have "(if unique \<noteq> [] then D @ send_summary_email W unique recipient else [])
                 = (if unique \<noteq> [] then
                      D @ [SendSummary recipient (email_subject unique) (email_body (clock W) unique)]
                    else [])" for D
    by (simp add: send_nonempty)
  ultimately show ?thesis by (simp only:)
qed

lemma run_cases:
  assumes "process_linkedin_emails parse W recipient dry_run = Inr out"
  shows "out = \<lparr> digest_input = None, effects = [] \<rparr>
       \<or> (\<exists>filtered_jobs processed unique.
            process_emails parse W (load_exclusion_list (exclusion_file W)) (get_unread_linkedin_emails W)
              = Inr (filtered_jobs, processed)
            \<and> unique = merge_dedup (load_exclusion_list (exclusion_file W))
                          (parse_previous_summary_emails W @ filtered_jobs)
            \<and> out = \<lparr> digest_input = (if unique \<noteq> [] then Some unique else None),
                       effects = (if unique \<noteq> [] then
                                    (if \<not> dry_run then delete_old_summary_emails W else [])
                                    @ [SendSummary recipient (email_subject unique) (email_body (clock W) unique)]
                                  else [])
                                 @ (if \<not> dry_run \<and> processed \<noteq> [] then map MarkRead processed else []) \<rparr>)"
proof (cases "get_unread_linkedin_emails W = [] \<and> parse_previous_summary_emails W = []")
  case True
  then show ?thesis using assms run_early [of W parse recipient dry_run] by simp
next
  case False
  show ?thesis
  proof (cases "process_emails parse W (load_exclusion_list (exclusion_file W)) (get_unread_linkedin_emails W)")
    case (Inl e)
    then show ?thesis using assms run_raises [OF False Inl, of recipient dry_run] by simp
  next
    case (Inr r)
    obtain fj pm where r: "r = (fj, pm)" by (cases r)
    define unique where "unique = merge_dedup (load_exclusion_list (exclusion_file W))
                          (parse_previous_summary_emails W @ fj)"
    have pe: "process_emails parse W (load_exclusion_list (exclusion_file W)) (get_unread_linkedin_emails W) = Inr (fj, pm)"
      using Inr r by simp
    have "Inr out = process_linkedin_emails parse W recipient dry_run"
      using assms by (rule sym)
    also have "\<dots> = Inr \<lparr> digest_input = (if unique \<noteq> [] then Some unique else None),
                       effects = (if unique \<noteq> [] then
                                    (if \<not> dry_run then delete_old_summary_emails W else [])
                                    @ [SendSummary recipient (email_subject unique) (email_body (clock W) unique)]
                                  else [])
                                 @ (if \<not> dry_run \<and> pm \<noteq> [] then map MarkRead pm else []) \<rparr>"
      by (rule run_full [OF False pe unique_def])
    finally have "out = \<lparr> digest_input = (if unique \<noteq> [] then Some unique else None),
                       effects = (if unique \<noteq> [] then
                                    (if \<not> dry_run then delete_old_summary_emails W else [])
                                    @ [SendSummary recipient (email_subject unique) (email_body (clock W) unique)]
                                  else [])
                                 @ (if \<not> dry_run \<and> pm \<noteq> [] then map MarkRead pm else []) \<rparr>"
      by (simp only: sum.inject)
    then show ?thesis using pe unique_def by blast
  qed
qed


lemma run_digest_input:
  assumes "process_linkedin_emails parse W recipient dry_run = Inr out"
    and "digest_input out = Some js"
  shows "js \<noteq> [] \<and> (\<exists>filtered_jobs processed.
            process_emails parse W (load_exclusion_list (exclusion_file W)) (get_unread_linkedin_emails W)
              = Inr (filtered_jobs, processed)
            \<and> js = merge_dedup (load_exclusion_list (exclusion_file W))
                          (parse_previous_summary_emails W @ filtered_jobs)
            \<and> effects out =
                 (if \<not> dry_run then delete_old_summary_emails W else [])
                 @ [SendSummary recipient (email_subject js) (email_body (clock W) js)]
                 @ (if \<not> dry_run \<and> processed \<noteq> [] then map MarkRead processed else []))"
proof -
  from run_cases [OF assms(1)] assms(2)
  obtain fj pm unique where
    pe: "process_emails parse W (load_exclusion_list (exclusion_file W)) (get_unread_linkedin_emails W)
              = Inr (fj, pm)"
    and u: "unique = merge_dedup (load_exclusion_list (exclusion_file W))
                          (parse_previous_summary_emails W @ fj)"
    and di: "digest_input out = (if unique \<noteq> [] then Some unique else None)"
    and ef: "effects out = (if unique \<noteq> [] then
                                    (if \<not> dry_run then delete_old_summary_emails W else [])
                                    @ [SendSummary recipient (email_subject unique) (email_body (clock W) unique)]
                                  else [])
                                 @ (if \<not> dry_run \<and> pm \<noteq> [] then map MarkRead pm else [])"
    by fastforce
  have ne: "unique \<noteq> []" and js: "js = unique"
    using di assms(2) by (auto split: if_splits)
  have "effects out =
                 (if \<not> dry_run then delete_old_summary_emails W else [])
                 @ [SendSummary recipient (email_subject js) (email_body (clock W) js)]
                 @ (if \<not> dry_run \<and> pm \<noteq> [] then map MarkRead pm else [])"
    using ef ne js by simp
  then show ?thesis using pe u ne js by blast
qed

text \<open>
  C1. The effects of a run are fixed by its mode and by the listings that survive the
  merge of the prior and the new listings. When at least one listing survives, a
  preview run sends the digest, once, and does nothing else: it neither deletes
  earlier digests nor marks a message as read; a mutating run makes one delete pass,
  then one send, then marks the processed messages as read. When no listing
  survives, nothing is deleted or sent in either mode; a preview run has no effect at
  all. A run whose email loop raises has no outcome.
\<close>

theorem run_effects_by_mode:
  "(process_emails parse W (load_exclusion_list (exclusion_file W)) (get_unread_linkedin_emails W)
      = Inl e
    \<longrightarrow> process_linkedin_emails parse W recipient dry_run = Inl e)
   \<and> (process_emails parse W (load_exclusion_list (exclusion_file W)) (get_unread_linkedin_emails W)
        = Inr (filtered_jobs, processed)
      \<and> unique = merge_dedup (load_exclusion_list (exclusion_file W))
                   (parse_previous_summary_emails W @ filtered_jobs)
      \<longrightarrow> (unique \<noteq> [] \<longrightarrow>
             process_linkedin_emails parse W recipient True =
               Inr \<lparr> digest_input = Some unique,
                     effects = [SendSummary recipient (email_subject unique) (email_body (clock W) unique)] \<rparr>
           \<and> process_linkedin_emails parse W recipient False =
               Inr \<lparr> digest_input = Some unique,
                     effects = [DeleteOldSummaries (List.map_filter usable_id (threads_of (cleanup_search W))),
                                SendSummary recipient (email_subject unique) (email_body (clock W) unique)]
                               @ map MarkRead processed \<rparr>)
        \<and> (unique = [] \<longrightarrow>
             process_linkedin_emails parse W recipient True =
               Inr \<lparr> digest_input = None, effects = [] \<rparr>
           \<and> process_linkedin_emails parse W recipient False =
               Inr \<lparr> digest_input = None, effects = map MarkRead processed \<rparr>))"
proof (intro conjI impI)
  assume pe: "process_emails parse W (load_exclusion_list (exclusion_file W)) (get_unread_linkedin_emails W)
      = Inl e"
  have "get_unread_linkedin_emails W \<noteq> []"
  proof
    assume "get_unread_linkedin_emails W = []"
    then show False using pe by simp
  qed
  then have c: "\<not> (get_unread_linkedin_emails W = [] \<and> parse_previous_summary_emails W = [])"
    by simp
  show "process_linkedin_emails parse W recipient dry_run = Inl e"
    by (rule run_raises [OF c pe])
next
  assume h: "process_emails parse W (load_exclusion_list (exclusion_file W)) (get_unread_linkedin_emails W)
        = Inr (filtered_jobs, processed)
      \<and> unique = merge_dedup (load_exclusion_list (exclusion_file W))
                   (parse_previous_summary_emails W @ filtered_jobs)"
  then have pe: "process_emails parse W (load_exclusion_list (exclusion_file W)) (get_unread_linkedin_emails W)
        = Inr (filtered_jobs, processed)"
    and u: "unique = merge_dedup (load_exclusion_list (exclusion_file W))
                   (parse_previous_summary_emails W @ filtered_jobs)"
    by simp_all
  assume ne: "unique \<noteq> []"
  have c: "\<not> (get_unread_linkedin_emails W = [] \<and> parse_previous_summary_emails W = [])"
  proof
    assume e: "get_unread_linkedin_emails W = [] \<and> parse_previous_summary_emails W = []"
    then have "filtered_jobs = []" using pe by simp
    then have "unique = []" using u e by (simp add: merge_dedup_def)
    then show False using ne by simp
  qed
  show "process_linkedin_emails parse W recipient True =
               Inr \<lparr> digest_input = Some unique,
                     effects = [SendSummary recipient (email_subject unique) (email_body (clock W) unique)] \<rparr>"
    using run_full [OF c pe u, of recipient True] ne by simp
  show "process_linkedin_emails parse W recipient False =
               Inr \<lparr> digest_input = Some unique,
                     effects = [DeleteOldSummaries (List.map_filter usable_id (threads_of (cleanup_search W))),
                                SendSummary recipient (email_subject unique) (email_body (clock W) unique)]
                               @ map MarkRead processed \<rparr>"
    using run_full [OF c pe u, of recipient False] ne
    by (cases "processed = []") (simp_all add: delete_old_summary_emails_def)
next
  assume h: "process_emails parse W (load_exclusion_list (exclusion_file W)) (get_unread_linkedin_emails W)
        = Inr (filtered_jobs, processed)
      \<and> unique = merge_dedup (load_exclusion_list (exclusion_file W))
                   (parse_previous_summary_emails W @ filtered_jobs)"
  then have pe: "process_emails parse W (load_exclusion_list (exclusion_file W)) (get_unread_linkedin_emails W)
        = Inr (filtered_jobs, processed)"
    and u: "unique = merge_dedup (load_exclusion_list (exclusion_file W))
                   (parse_previous_summary_emails W @ filtered_jobs)"
    by simp_all
  assume em: "unique = []"
  show "process_linkedin_emails parse W recipient True = Inr \<lparr> digest_input = None, effects = [] \<rparr>"
  proof (cases "get_unread_linkedin_emails W = [] \<and> parse_previous_summary_emails W = []")
    case True
    then show ?thesis using run_early [of W parse recipient True] by simp
  next
    case False
    then show ?thesis using run_full [OF False pe u, of recipient True] em by simp
  qed
  show "process_linkedin_emails parse W recipient False
          = Inr \<lparr> digest_input = None, effects = map MarkRead processed \<rparr>"
  proof (cases "get_unread_linkedin_emails W = [] \<and> parse_previous_summary_emails W = []")
    case True
    then have "processed = []" using pe by simp
    then show ?thesis using True run_early [of W parse recipient False] by simp
  next
    case False
    then show ?thesis
      using run_full [OF False pe u, of recipient False] em by (cases "processed = []") simp_all
  qed
qed

text \<open>The example mailbox.\<close>

lemma previous_example: "parse_previous_summary_emails example_world = [example_job_e]"
  by code_simp

lemma exclusions_example: "load_exclusion_list (exclusion_file example_world) = {''4365006240''}"
  by code_simp

lemma unread_example: "get_unread_linkedin_emails example_world = []"
  by (simp add: get_unread_linkedin_emails_def threads_of_def example_world_def)

lemma unique_example: "merge_dedup {''4365006240''} [example_job_e] = [example_job_e]"
proof -
  have "extract_job_id (link example_job_e) = Some ''4365006239''" by code_simp
  then show ?thesis by (simp add: merge_dedup_def dedup_step_def)
qed

lemma run_example:
  "process_linkedin_emails (\<lambda>body. []) example_world ''me@example.com'' dry_run =
     Inr \<lparr> digest_input = Some [example_job_e],
           effects = (if \<not> dry_run then delete_old_summary_emails example_world else [])
                     @ [SendSummary ''me@example.com'' (email_subject [example_job_e])
                          (email_body (clock example_world) [example_job_e])] \<rparr>"
proof -
  have c: "\<not> (get_unread_linkedin_emails example_world = [] \<and> parse_previous_summary_emails example_world = [])"
    by (simp add: previous_example)
  have pe: "process_emails (\<lambda>body. []) example_world (load_exclusion_list (exclusion_file example_world))
              (get_unread_linkedin_emails example_world) = Inr ([], [])"
    by (simp add: unread_example)
  have u: "[example_job_e] = merge_dedup (load_exclusion_list (exclusion_file example_world))
                       (parse_previous_summary_emails example_world @ [])"
    by (simp add: previous_example exclusions_example unique_example)
  show ?thesis
    using run_full [OF c pe u, of "''me@example.com''" dry_run] by simp
qed

text \<open>
  In preview mode the example mailbox gets the digest sent: the claim that a preview
  run never sends does not hold.
\<close>

theorem preview_sends_counterexample:
  "process_linkedin_emails (\<lambda>body. []) example_world ''me@example.com'' True =
     Inr \<lparr> digest_input = Some [example_job_e],
           effects = [SendSummary ''me@example.com'' (email_subject [example_job_e])
                        (email_body (clock example_world) [example_job_e])] \<rparr>"
  using run_example [of True] by simp

text \<open>The mailbox with a digest of two listings and one new mail.\<close>

lemma busy_previous: "parse_previous_summary_emails busy_world = [example_job_e, example_job_f]"
  by code_simp

lemma busy_exclusions: "load_exclusion_list (exclusion_file busy_world) = {''4365006240''}"
  by code_simp

lemma busy_unread: "get_unread_linkedin_emails busy_world = [\<lparr> thread_id = Some ''19c0fff0'' \<rparr>]"
  by (simp add: get_unread_linkedin_emails_def threads_of_def busy_world_def)

lemma busy_emails:
  "process_emails busy_parse busy_world {''4365006240''} [\<lparr> thread_id = Some ''19c0fff0'' \<rparr>]
     = Inr ([example_job_a, example_job_g], [''19c0fff0''])"
  by code_simp

lemma busy_ids:
  "extract_job_id (link example_job_e) = Some ''4365006239''"
  "extract_job_id (link example_job_f) = Some ''4365006240''"
  "extract_job_id (link example_job_g) = Some ''4365006243''"
  by (code_simp)+

lemma busy_unique:
  "merge_dedup {''4365006240''} ([example_job_e, example_job_f] @ [example_job_a, example_job_g])
     = [example_job_e, example_job_g]"
  by (simp add: merge_dedup_def dedup_step_def busy_ids example_ids)

lemma busy_cleanup:
  "List.map_filter usable_id (threads_of (cleanup_search busy_world)) = [''19c0ffee'', ''19c0ffdd'']"
  by (simp add: threads_of_def busy_world_def usable_id_def map_filter_def)


lemma busy_run_emails:
  "process_emails busy_parse busy_world (load_exclusion_list (exclusion_file busy_world))
     (get_unread_linkedin_emails busy_world) = Inr ([example_job_a, example_job_g], [''19c0fff0''])"
  by (simp only: busy_exclusions busy_unread busy_emails)

lemma busy_run_unique:
  "[example_job_e, example_job_g]
     = merge_dedup (load_exclusion_list (exclusion_file busy_world))
         (parse_previous_summary_emails busy_world @ [example_job_a, example_job_g])"
  by (simp only: busy_exclusions busy_previous busy_unique)

theorem run_effects_by_mode_witness:
  "process_emails busy_parse busy_world (load_exclusion_list (exclusion_file busy_world))
     (get_unread_linkedin_emails busy_world) = Inr ([example_job_a, example_job_g], [''19c0fff0''])
   \<and> [example_job_e, example_job_g]
       = merge_dedup (load_exclusion_list (exclusion_file busy_world))
           (parse_previous_summary_emails busy_world @ [example_job_a, example_job_g])
   \<and> process_linkedin_emails busy_parse busy_world ''me@example.com'' True =
       Inr \<lparr> digest_input = Some [example_job_e, example_job_g],
             effects = [SendSummary ''me@example.com'' (email_subject [example_job_e, example_job_g])
                          (email_body (clock busy_world) [example_job_e, example_job_g])] \<rparr>
   \<and> process_linkedin_emails busy_parse busy_world ''me@example.com'' False =
       Inr \<lparr> digest_input = Some [example_job_e, example_job_g],
             effects = [DeleteOldSummaries [''19c0ffee'', ''19c0ffdd''],
                        SendSummary ''me@example.com'' (email_subject [example_job_e, example_job_g])
                          (email_body (clock busy_world) [example_job_e, example_job_g]),
                        MarkRead ''19c0fff0''] \<rparr>"
proof -
  have ne: "[example_job_e, example_job_g] \<noteq> []" by simp
  show ?thesis
    using run_effects_by_mode [of busy_parse busy_world _ "''me@example.com''" _
            "[example_job_a, example_job_g]" "[''19c0fff0'']" "[example_job_e, example_job_g]"]
          busy_run_emails busy_run_unique ne busy_cleanup
    by simp
qed

text \<open>
  C2. The listings handed to the digest builder have pairwise different job
  identifiers, and none of them has an identifier of the exclusion list, whether it
  was recovered from an earlier digest or parsed from a new email.
\<close>

theorem digest_input_unique_not_excluded:
  assumes "process_linkedin_emails parse W recipient dry_run = Inr out"
    and "digest_input out = Some js"
  shows "distinct (job_ids js)
       \<and> (\<forall>j \<in> set js. \<forall>job_id. extract_job_id (link j) = Some job_id
             \<longrightarrow> job_id \<notin> load_exclusion_list (exclusion_file W))"
proof -
  from run_digest_input [OF assms] obtain fj where
    js: "js = merge_dedup (load_exclusion_list (exclusion_file W))
                          (parse_previous_summary_emails W @ fj)"
    by blast
  have "distinct (job_ids js)"
    unfolding js by (rule distinct_job_ids [OF merge_dedup_distinct])
  moreover have "\<forall>j \<in> set js. \<not> is_excluded (load_exclusion_list (exclusion_file W)) j"
    unfolding js using merge_dedup_not_excluded by blast
  ultimately show ?thesis
    by (auto simp: is_excluded_def)
qed

theorem digest_input_unique_not_excluded_witness:
  "process_linkedin_emails busy_parse busy_world ''me@example.com'' False =
       Inr \<lparr> digest_input = Some [example_job_e, example_job_g],
             effects = [DeleteOldSummaries [''19c0ffee'', ''19c0ffdd''],
                        SendSummary ''me@example.com'' (email_subject [example_job_e, example_job_g])
                          (email_body (clock busy_world) [example_job_e, example_job_g]),
                        MarkRead ''19c0fff0''] \<rparr>
   \<and> parse_previous_summary_emails busy_world = [example_job_e, example_job_f]
   \<and> load_exclusion_list (exclusion_file busy_world) = {''4365006240''}
   \<and> job_ids [example_job_e, example_job_f, example_job_a, example_job_g]
       = [''4365006239'', ''4365006240'', ''4365006239'', ''4365006243'']
   \<and> job_ids [example_job_e, example_job_g] = [''4365006239'', ''4365006243'']
   \<and> distinct (job_ids [example_job_e, example_job_g])
   \<and> ''4365006239'' \<notin> load_exclusion_list (exclusion_file busy_world)
   \<and> ''4365006243'' \<notin> load_exclusion_list (exclusion_file busy_world)"
proof -
  have c: "\<not> (get_unread_linkedin_emails busy_world = [] \<and> parse_previous_summary_emails busy_world = [])"
    by (simp add: busy_unread)
  have run: "process_linkedin_emails busy_parse busy_world ''me@example.com'' False =
       Inr \<lparr> digest_input = Some [example_job_e, example_job_g],
             effects = [DeleteOldSummaries [''19c0ffee'', ''19c0ffdd''],
                        SendSummary ''me@example.com'' (email_subject [example_job_e, example_job_g])
                          (email_body (clock busy_world) [example_job_e, example_job_g]),
                        MarkRead ''19c0fff0''] \<rparr>"
    using run_full [OF c busy_run_emails busy_run_unique, of "''me@example.com''" False] busy_cleanup
    by (simp add: delete_old_summary_emails_def)
  have ids: "job_ids [example_job_e, example_job_f, example_job_a, example_job_g]
       = [''4365006239'', ''4365006240'', ''4365006239'', ''4365006243'']"
    "job_ids [example_job_e, example_job_g] = [''4365006239'', ''4365006243'']"
    by (simp_all add: job_ids_def busy_ids example_ids)
  show ?thesis
    using run ids busy_previous busy_exclusions busy_ids
          digest_input_unique_not_excluded [OF run, of "[example_job_e, example_job_g]"]
    by simp
qed

section \<open>Properties of the public-company filter\<close>

lemma public_by_indicator:
  assumes "ind \<in> set public_indicators" "lower body = a @ ind @ b"
  shows "is_public_company c body"
proof -
  have "contains (lower body) ind" using assms(2) contains_iff by blast
  then have "list_ex (\<lambda>indicator. contains (lower body) indicator) public_indicators"
    using assms(1) by (auto simp: list_ex_iff)
  then show ?thesis by (simp add: is_public_company_def Let_def)
qed

lemma process_listings_links:
  assumes pub: "\<forall>l \<in> set ls. is_public_company (l_company l) body"
    and run: "process_listings W E body ls = Inr js"
  shows "map link js
           = map l_link (filter (\<lambda>l. case extract_job_id (l_link l) of
                                         Some job_id \<Rightarrow> job_id \<notin> E | None \<Rightarrow> True) ls)
         \<and> map company js
           = map l_company (filter (\<lambda>l. case extract_job_id (l_link l) of
                                         Some job_id \<Rightarrow> job_id \<notin> E | None \<Rightarrow> True) ls)"
  using assms
proof (induction ls arbitrary: js)
  case Nil
  then show ?case by simp
next
  case (Cons l ls)
  from Cons.prems(2) obtain r js' where
    r: "process_listing W E body l = Inr r"
    and js': "process_listings W E body ls = Inr js'"
    and js: "js = (case r of None \<Rightarrow> [] | Some j \<Rightarrow> [j]) @ js'"
    by (auto split: sum.splits)
  have IH: "map link js'
           = map l_link (filter (\<lambda>l. case extract_job_id (l_link l) of
                                         Some job_id \<Rightarrow> job_id \<notin> E | None \<Rightarrow> True) ls)
         \<and> map company js'
           = map l_company (filter (\<lambda>l. case extract_job_id (l_link l) of
                                         Some job_id \<Rightarrow> job_id \<notin> E | None \<Rightarrow> True) ls)"
    using Cons.IH [OF _ js'] Cons.prems(1) by simp
  have p: "is_public_company (l_company l) body" using Cons.prems(1) by simp
  show ?case
  proof (cases "case extract_job_id (l_link l) of Some job_id \<Rightarrow> job_id \<in> E | None \<Rightarrow> False")
    case True
    then have "r = None" using r p by (simp add: process_listing_def)
    moreover have "\<not> (case extract_job_id (l_link l) of Some job_id \<Rightarrow> job_id \<notin> E | None \<Rightarrow> True)"
      using True by (simp split: option.splits)
    ultimately show ?thesis using IH js by simp
  next
    case False
    then obtain pay where "r = Some \<lparr> company = l_company l, title = l_title l, link = l_link l,
                            compensation = pay, location = l_location l \<rparr>"
      using r p by (auto simp: process_listing_def split: sum.splits)
    moreover have "case extract_job_id (l_link l) of Some job_id \<Rightarrow> job_id \<notin> E | None \<Rightarrow> True"
      using False by (simp split: option.splits)
    ultimately show ?thesis using IH js by simp
  qed
qed

text \<open>
  C9. When the lowercased context contains one of the indicator phrases, every
  company name is classified as public. The run passes the whole body of an email as
  the context, so with an indicator phrase in the body every listing parsed from that
  email passes the filter: the jobs kept from the email are all its listings that are
  not on the exclusion list.
\<close>

theorem indicator_passes_every_listing:
  assumes "ind \<in> set public_indicators" and "lower body = a @ ind @ b"
  shows "is_public_company c body
       \<and> (usable_id email = Some message_id \<and> message_body W message_id = body
            \<and> process_emails parse W E [email] = Inr (filtered_jobs, processed)
          \<longrightarrow> map company filtered_jobs
                = map l_company (filter (\<lambda>l. case extract_job_id (l_link l) of
                                                Some job_id \<Rightarrow> job_id \<notin> E | None \<Rightarrow> True)
                                   (parse body)))"
proof -
  have pub: "is_public_company c' body" for c'
    using public_by_indicator [OF assms] .
  have "map company filtered_jobs
                = map l_company (filter (\<lambda>l. case extract_job_id (l_link l) of
                                                Some job_id \<Rightarrow> job_id \<notin> E | None \<Rightarrow> True)
                                   (parse body))"
    if u: "usable_id email = Some message_id" and b: "message_body W message_id = body"
      and pe: "process_emails parse W E [email] = Inr (filtered_jobs, processed)"
  proof (cases "parse body = []")
    case True
    then show ?thesis using u b pe by simp
  next
    case False
    then obtain js where "process_listings W E body (parse body) = Inr js" "filtered_jobs = js"
      using u b pe by (auto simp: Let_def split: sum.splits)
    then show ?thesis using process_listings_links [of "parse body" body W E js] pub by simp
  qed
  then show ?thesis using pub by blast
qed

lemma example_body_lower:
  "lower example_body = ''senior engineer at tiny startup. competitive salary and '' @ ''equity'' @ ''. view job: ''"
  by code_simp

lemma example_email_run:
  "process_emails (\<lambda>body. example_listings) (example_world \<lparr> message_body := (\<lambda>m. example_body) \<rparr>) {}
     [\<lparr> thread_id = Some ''19c0ffef'' \<rparr>]
   = Inr ([\<lparr> company = ''Tiny Startup'', title = ''Senior Engineer'',
              link = ''https://www.linkedin.com/comm/jobs/view/4365006241'',
              compensation = ''$100K-$120K'', location = ''Remote'' \<rparr>,
           \<lparr> company = ''Another Small Shop'', title = ''Designer'',
              link = ''https://www.linkedin.com/comm/jobs/view/4365006242'',
              compensation = ''$90K-$95K'', location = ''Remote'' \<rparr>], [''19c0ffef''])"
  by code_simp

theorem indicator_passes_every_listing_witness:
  "''equity'' \<in> set public_indicators
   \<and> lower example_body = ''senior engineer at tiny startup. competitive salary and '' @ ''equity'' @ ''. view job: ''
   \<and> is_public_company ''Tiny Startup'' example_body
   \<and> \<not> is_public_company ''Tiny Startup'' ''Senior Engineer at Tiny Startup.''
   \<and> [''Tiny Startup'', ''Another Small Shop'']
       = map l_company (filter (\<lambda>l. case extract_job_id (l_link l) of
                                       Some job_id \<Rightarrow> job_id \<notin> {} | None \<Rightarrow> True)
                          example_listings)"
proof -
  have i: "''equity'' \<in> set public_indicators" by (simp add: public_indicators_def)
  have n: "\<not> is_public_company ''Tiny Startup'' ''Senior Engineer at Tiny Startup.''" by code_simp
  have u: "usable_id \<lparr> thread_id = Some ''19c0ffef'' \<rparr> = Some ''19c0ffef''"
    by (simp add: usable_id_def)
  have b: "message_body (example_world \<lparr> message_body := (\<lambda>m. example_body) \<rparr>) ''19c0ffef'' = example_body"
    by simp
  show ?thesis
    using i example_body_lower n u b example_email_run
      indicator_passes_every_listing [OF i example_body_lower, of "''Tiny Startup''"
        "\<lparr> thread_id = Some ''19c0ffef'' \<rparr>" "''19c0ffef''"
        "example_world \<lparr> message_body := (\<lambda>m. example_body) \<rparr>" "\<lambda>body. example_listings" "{}"
        "[\<lparr> company = ''Tiny Startup'', title = ''Senior Engineer'',
              link = ''https://www.linkedin.com/comm/jobs/view/4365006241'',
              compensation = ''$100K-$120K'', location = ''Remote'' \<rparr>,
           \<lparr> company = ''Another Small Shop'', title = ''Designer'',
              link = ''https://www.linkedin.com/comm/jobs/view/4365006242'',
              compensation = ''$90K-$95K'', location = ''Remote'' \<rparr>]" "[''19c0ffef'']"]
    by simp
qed

section \<open>Character tables\<close>






section \<open>Properties of the salary scans\<close>




































end
